theory Spec2Isabelle
  imports Main
begin

section \<open>Data model of the trade manager\<close>

text \<open>
  The embedding follows \<^verbatim>\<open>src/chia/wallet/trade_manager.py\<close>. Identifiers of 32 bytes
  (coin names, puzzle hashes, asset ids, trade ids) are opaque and compared for equality
  only, so they are natural numbers here. Classes that the file imports and does not
  define (Coin, CoinState, SpendBundle, Offer, TradeRecord, TransactionRecord, the
  wallets) are records of the fields and method results that the file reads.
\<close>

type_synonym bytes32 = nat
type_synonym puzzle_info = nat
type_synonym announcement = nat

record coin =
  parent_coin_info :: bytes32
  puzzle_hash :: bytes32
  amount :: nat

record coin_state =
  cs_coin :: coin
  spent_height :: "nat option"
  created_height :: "nat option"

record wallet_coin_record =
  wcr_coin :: coin
  wcr_wallet_id :: nat

datatype trade_status =
  PENDING_ACCEPT | PENDING_CONFIRM | PENDING_CANCEL | CANCELLED | CONFIRMED | FAILED

datatype transaction_type = INCOMING_TX | INCOMING_TRADE | OUTGOING_TRADE

datatype wallet_type = STANDARD_WALLET | OTHER_WALLET

text \<open>
  Every exception the file can raise is a value. The strings of the source are kept as
  constructors: the text of each is in the comment beside it.
\<close>

datatype error =
    KeyError                          \<comment> \<open>a missing key of \<^verbatim>\<open>wallets[...]\<close> or of a dict\<close>
  | IndexError
  | AttributeError                    \<comment> \<open>a method read on \<^verbatim>\<open>None\<close>\<close>
  | AssertionError
  | TypeError                         \<comment> \<open>\<^verbatim>\<open>uint32(None)\<close>: a height that is \<^verbatim>\<open>None\<close>\<close>
  | DoesNotFit                        \<comment> \<open>\<^verbatim>\<open>uint32(...)\<close>, \<^verbatim>\<open>uint64(...)\<close> out of range\<close>
  | CannotRequestAssets nat           \<comment> \<open>"Cannot request assets from wallet id ... without more information"\<close>
  | CannotOfferAssets nat             \<comment> \<open>"Cannot offer assets from wallet id ... without more information"\<close>
  | ZeroAmount                        \<comment> \<open>"You cannot offer nor request 0 amount of something"\<close>
  | CannotOfferCoins nat              \<comment> \<open>"Cannot offer coins from wallet id ..."\<close>
  | DriverConflict puzzle_info puzzle_info  \<comment> \<open>"driver_dict specified ..., was expecting ..."\<close>
  | NotIntegrated bytes32             \<comment> \<open>"Wallet for asset id ... is not properly integrated with TradeManager"\<close>
  | WalletFailure nat                 \<comment> \<open>an exception raised inside a wallet capability\<close>
  | ErrorCreatingOffer "error option" \<comment> \<open>\<^verbatim>\<open>Exception(f"Error creating offer: {error}")\<close>\<close>

record spend_bundle =
  sb_name :: bytes32
  sb_removals :: "coin list"
  sb_not_ephemeral_additions :: "coin list"
  sb_fees :: int

record payment =
  p_puzzle_hash :: bytes32
  p_amount :: nat
  p_memos :: "bytes32 list"

record offer =
  requested_payments :: "(bytes32 option \<times> payment list) list"
  offer_bundle :: spend_bundle
  driver_dict :: "(bytes32 \<times> puzzle_info) list"

record transaction_record =
  confirmed_at_height :: nat
  tx_created_at_time :: nat
  to_puzzle_hash :: bytes32
  tx_amount :: nat
  fee_amount :: nat
  confirmed :: bool
  tx_sent :: nat
  spend_bundle :: "spend_bundle option"
  additions :: "coin list"
  removals :: "coin list"
  tx_wallet_id :: nat
  tx_sent_to :: "string list"
  tx_trade_id :: "bytes32 option"
  tx_type :: transaction_type
  tx_name :: bytes32
  memos :: "bytes32 list"

text \<open>
  \<^verbatim>\<open>TradeRecord.offer\<close> holds \<^verbatim>\<open>bytes(offer)\<close> and is read back with
  \<^verbatim>\<open>Offer.from_bytes\<close>; the record keeps the offer itself. The heights of a
  trade record and of a transaction record are \<^verbatim>\<open>uint32\<close>, as the source builds
  them (\<^verbatim>\<open>uint32(0)\<close>).
\<close>

record trade_record =
  confirmed_at_index :: nat
  accepted_at_time :: "nat option"
  created_at_time :: nat
  is_my_offer :: bool
  sent :: nat
  tr_offer :: offer
  taken_offer :: "offer option"
  coins_of_interest :: "coin list"
  trade_id :: bytes32
  status :: trade_status
  sent_to :: "string list"

subsection \<open>Wallets and the wallet state manager\<close>

text \<open>
  A wallet is the set of capabilities the trade manager calls. A capability that a wallet
  may lack (the source asks \<^verbatim>\<open>callable(getattr(wallet, ..., None))\<close>) is optional.
  \<open>get_new_puzzlehash\<close> takes the number of addresses derived so far.
\<close>

record wallet =
  w_id :: nat
  w_type :: wallet_type
  get_asset_id :: "bytes32 option"
  get_new_puzzlehash :: "nat \<Rightarrow> bytes32"
  get_coins_to_offer :: "(bytes32 option \<Rightarrow> nat \<Rightarrow> nat \<Rightarrow> error + coin list) option"
  get_puzzle_info :: "(bytes32 \<Rightarrow> puzzle_info) option"
  create_offer_transactions ::
    "nat \<Rightarrow> coin list \<Rightarrow> announcement list \<Rightarrow> nat \<Rightarrow> error + transaction_record list"
  convert_puzzle_hash :: "bytes32 \<Rightarrow> bytes32"
  select_coins :: "nat \<Rightarrow> coin list \<Rightarrow> error + coin list"
  generate_signed_transaction ::
    "nat \<Rightarrow> bytes32 \<Rightarrow> nat \<Rightarrow> coin list \<Rightarrow> error + transaction_record"
  generate_signed_transactions ::
    "nat list \<Rightarrow> bytes32 list \<Rightarrow> nat \<Rightarrow> coin list \<Rightarrow> error + transaction_record list"

record registry =
  wallets :: "nat \<Rightarrow> wallet option"
  main_wallet :: wallet
  get_wallet_for_asset_id :: "bytes32 \<Rightarrow> wallet option"
  get_wallet_for_puzzle_info :: "puzzle_info \<Rightarrow> wallet option"
  get_wallet_id_for_puzzle_hash :: "bytes32 \<Rightarrow> nat option"
  get_wallet_for_coin :: "bytes32 \<Rightarrow> wallet option"

text \<open>
  Everything else the file calls and does not define is a field of \<open>env\<close>: the hash
  functions, the methods of \<^verbatim>\<open>Offer\<close> and \<^verbatim>\<open>SpendBundle\<close>, the coin
  store, the node's coin-state query, and the order in which the trade store lists its
  records after a write to the record of a trade id.
\<close>

record env =
  coin_name :: "coin \<Rightarrow> bytes32"
  offer_name :: "offer \<Rightarrow> bytes32"
  std_hash :: "bytes32 \<Rightarrow> bytes32 \<Rightarrow> bytes32"
  removal_tree_hash :: "coin list \<Rightarrow> bytes32"
  get_primary_coins :: "offer \<Rightarrow> coin list"
  get_offered_coins :: "offer \<Rightarrow> (bytes32 option \<times> coin list) list"
  get_root_removal :: "offer \<Rightarrow> coin \<Rightarrow> coin"
  get_involved_coins :: "offer \<Rightarrow> coin list"
  arbitrage :: "offer \<Rightarrow> (bytes32 option \<times> int) list"
  to_valid_spend :: "offer \<Rightarrow> spend_bundle"
  is_valid :: "offer \<Rightarrow> bool"
  aggregate_offers :: "offer list \<Rightarrow> offer"
  aggregate_bundles :: "spend_bundle list \<Rightarrow> spend_bundle"
  notarize_payments ::
    "(bytes32 option \<times> payment list) list \<Rightarrow> coin list \<Rightarrow> (bytes32 option \<times> payment list) list"
  calculate_announcements ::
    "(bytes32 option \<times> payment list) list \<Rightarrow> (bytes32 \<times> puzzle_info) list \<Rightarrow> announcement list"
  get_multiple_coin_records :: "bytes32 list \<Rightarrow> wallet_coin_record list"
  get_coin_state :: "bytes32 list \<Rightarrow> nat option \<Rightarrow> coin_state list"
  store_order :: "bytes32 \<Rightarrow> trade_record list \<Rightarrow> trade_record list"
  create_wallet_for_puzzle_info :: "registry \<Rightarrow> puzzle_info \<Rightarrow> registry"

text \<open>The calls made to wallets, in the order they are made.\<close>

datatype offer_key = WalletId int | AssetId bytes32

datatype call =
    GetCoinsToOffer offer_key "bytes32 option" nat nat
  | CreateOfferTransactions offer_key nat "coin list" "announcement list" nat
  | SelectCoins nat nat "coin list"
  | GenerateSignedTransaction nat nat bytes32 nat "coin list"
  | GenerateSignedTransactions nat "nat list" "bytes32 list" nat "coin list"

record wallet_io =
  ph_index :: nat
  calls :: "call list"

record state =
  trades :: "trade_record list"
  status_log :: "(bytes32 \<times> trade_status) list"
  transactions :: "transaction_record list"
  pending_transactions :: "transaction_record list"
  reg :: registry
  io :: wallet_io

subsection \<open>The trade store and the transaction store\<close>

text \<open>
  Modelled from the spec: the trade store (\<^verbatim>\<open>chia/wallet/trading/trade_store.py\<close>) is
  not part of the sources. The spec describes it as trade records indexed by trade id,
  with a status-update operation, whose status changes are persisted and not overwritten
  destructively. So a write replaces the status in the record of the trade id and adds
  the change to \<open>status_log\<close>. The spec gives no order for the records:
  \<open>trades\<close> is the listing \<open>get_all_trades\<close> returns, and after a write the
  listing is in the order the store chooses (\<open>store_order\<close>), with the same records
  whatever the order. \<open>set_status\<close> is the call without a height,
  \<open>set_status_at\<close> the call that also passes the height.
\<close>

definition listing :: "env \<Rightarrow> bytes32 \<Rightarrow> trade_record list \<Rightarrow> trade_record list" where
  "listing e tid ts = (if set (store_order e tid ts) = set ts then store_order e tid ts else ts)"

definition get_all_trades :: "state \<Rightarrow> trade_record list" where
  "get_all_trades s = trades s"

definition get_trade_record :: "state \<Rightarrow> bytes32 \<Rightarrow> trade_record option" where
  "get_trade_record s tid = find (\<lambda>t. trade_id t = tid) (trades s)"

definition set_status :: "env \<Rightarrow> state \<Rightarrow> bytes32 \<Rightarrow> trade_status \<Rightarrow> state" where
  "set_status e s tid st =
     s\<lparr>trades := listing e tid
                   (map (\<lambda>t. if trade_id t = tid then t\<lparr>status := st\<rparr> else t) (trades s)),
       status_log := status_log s @ [(tid, st)]\<rparr>"

definition set_status_at :: "env \<Rightarrow> state \<Rightarrow> bytes32 \<Rightarrow> trade_status \<Rightarrow> nat \<Rightarrow> state" where
  "set_status_at e s tid st h =
     s\<lparr>trades := listing e tid
                   (map (\<lambda>t. if trade_id t = tid
                               then t\<lparr>status := st, confirmed_at_index := h\<rparr> else t)
                        (trades s)),
       status_log := status_log s @ [(tid, st)]\<rparr>"

definition add_trade_record :: "env \<Rightarrow> state \<Rightarrow> trade_record \<Rightarrow> state" where
  "add_trade_record e s r =
     (if list_ex (\<lambda>t. trade_id t = trade_id r) (trades s)
      then s\<lparr>trades := listing e (trade_id r)
                         (map (\<lambda>t. if trade_id t = trade_id r then r else t) (trades s)),
             status_log := status_log s @ [(trade_id r, status r)]\<rparr>
      else s\<lparr>trades := listing e (trade_id r) (trades s @ [r]),
             status_log := status_log s @ [(trade_id r, status r)]\<rparr>)"

text \<open>
  Modelled from the spec: the transaction store of the wallet state manager is not part
  of the sources. \<open>add_transaction\<close> and \<open>add_pending_transaction\<close> append the
  record; \<open>delete_trade_transactions\<close> drops the trade's transactions that are still
  pending (``delete any previously-queued pending transactions associated with this
  trade'').
\<close>

definition add_transaction :: "state \<Rightarrow> transaction_record \<Rightarrow> state" where
  "add_transaction s tx = s\<lparr>transactions := transactions s @ [tx]\<rparr>"

definition add_pending_transaction :: "state \<Rightarrow> transaction_record \<Rightarrow> state" where
  "add_pending_transaction s tx = s\<lparr>pending_transactions := pending_transactions s @ [tx]\<rparr>"

definition trade_pending :: "bytes32 \<Rightarrow> transaction_record \<Rightarrow> bool" where
  "trade_pending tid tx = (tx_trade_id tx = Some tid \<and> \<not> confirmed tx)"

definition delete_trade_transactions :: "state \<Rightarrow> bytes32 \<Rightarrow> state" where
  "delete_trade_transactions s tid =
     s\<lparr>transactions := filter (\<lambda>tx. \<not> trade_pending tid tx) (transactions s),
       pending_transactions := filter (\<lambda>tx. \<not> trade_pending tid tx) (pending_transactions s)\<rparr>"

section \<open>Looking a trade up by coin\<close>

definition get_trade_by_coin :: "state \<Rightarrow> coin \<Rightarrow> trade_record option" where
  "get_trade_by_coin s c =
     find (\<lambda>trade. status trade \<noteq> CANCELLED \<and> c \<in> set (coins_of_interest trade))
          (get_all_trades s)"

section \<open>Transaction records of an offer\<close>

text \<open>
  \<^verbatim>\<open>uint64(x)\<close> raises when \<open>x\<close> is negative or needs more than 64 bits.
  \<^verbatim>\<open>d.setdefault(k, []).append(v)\<close> on a dictionary kept in insertion order is
  \<open>append_to\<close>. \<^verbatim>\<open>time.time()\<close> is the argument \<open>now\<close>.
\<close>

definition uint64 :: "int \<Rightarrow> error + nat" where
  "uint64 x = (if 0 \<le> x \<and> x < 2 ^ 64 then Inr (nat x) else Inl DoesNotFit)"

definition uint32 :: "int \<Rightarrow> error + nat" where
  "uint32 x = (if 0 \<le> x \<and> x < 2 ^ 32 then Inr (nat x) else Inl DoesNotFit)"

fun append_to :: "('k \<times> 'v list) list \<Rightarrow> 'k \<Rightarrow> 'v \<Rightarrow> ('k \<times> 'v list) list" where
  "append_to [] k v = [(k, [v])]"
| "append_to ((k', vs) # d) k v =
     (if k' = k then (k', vs @ [v]) # d else (k', vs) # append_to d k v)"

definition incoming_trade_tx ::
  "env \<Rightarrow> nat \<Rightarrow> offer \<Rightarrow> spend_bundle \<Rightarrow> nat \<Rightarrow> bytes32 \<Rightarrow> coin \<Rightarrow> transaction_record" where
  "incoming_trade_tx e now offer fsb wid to_ph addition =
     \<lparr>confirmed_at_height = 0, tx_created_at_time = now, to_puzzle_hash = to_ph,
      tx_amount = amount addition, fee_amount = 0, confirmed = False, tx_sent = 10,
      spend_bundle = None, additions = [addition], removals = [], tx_wallet_id = wid,
      tx_sent_to = [], tx_trade_id = Some (offer_name e offer), tx_type = INCOMING_TRADE,
      tx_name = std_hash e (sb_name fsb) (coin_name e addition), memos = []\<rparr>"

definition outgoing_trade_tx ::
  "env \<Rightarrow> nat \<Rightarrow> offer \<Rightarrow> spend_bundle \<Rightarrow> nat \<Rightarrow> nat \<Rightarrow> nat \<Rightarrow> coin list \<Rightarrow> coin list
     \<Rightarrow> transaction_record" where
  "outgoing_trade_tx e now offer fsb wid sent_amount all_fees change_coins grouped_removals =
     \<lparr>confirmed_at_height = 0, tx_created_at_time = now, to_puzzle_hash = 1,
      tx_amount = sent_amount, fee_amount = all_fees, confirmed = False, tx_sent = 10,
      spend_bundle = None, additions = change_coins, removals = grouped_removals,
      tx_wallet_id = wid, tx_sent_to = [], tx_trade_id = Some (offer_name e offer),
      tx_type = OUTGOING_TRADE,
      tx_name = std_hash e (sb_name fsb) (removal_tree_hash e grouped_removals), memos = []\<rparr>"

fun additions_loop ::
  "env \<Rightarrow> registry \<Rightarrow> nat \<Rightarrow> offer \<Rightarrow> spend_bundle \<Rightarrow> bytes32 list \<Rightarrow> coin list
     \<Rightarrow> transaction_record list \<Rightarrow> (nat \<times> coin list) list
     \<Rightarrow> error + (transaction_record list \<times> (nat \<times> coin list) list)" where
  "additions_loop e r now offer fsb sids [] txs addition_dict = Inr (txs, addition_dict)"
| "additions_loop e r now offer fsb sids (addition # rest) txs addition_dict =
     (case get_wallet_id_for_puzzle_hash r (puzzle_hash addition) of
        None \<Rightarrow> additions_loop e r now offer fsb sids rest txs addition_dict
      | Some wid \<Rightarrow>
          if parent_coin_info addition \<in> set sids
          then (case wallets r wid of
                  None \<Rightarrow> Inl KeyError
                | Some w \<Rightarrow>
                    additions_loop e r now offer fsb sids rest
                      (txs @ [incoming_trade_tx e now offer fsb wid
                                (convert_puzzle_hash w (puzzle_hash addition)) addition])
                      addition_dict)
          else additions_loop e r now offer fsb sids rest txs
                 (append_to addition_dict wid addition))"

definition removal_dict :: "registry \<Rightarrow> coin list \<Rightarrow> (nat \<times> coin list) list" where
  "removal_dict r rems =
     fold (\<lambda>removal d. case get_wallet_id_for_puzzle_hash r (puzzle_hash removal) of
                          None \<Rightarrow> d
                        | Some wid \<Rightarrow> append_to d wid removal) rems []"

fun removals_loop ::
  "env \<Rightarrow> registry \<Rightarrow> nat \<Rightarrow> offer \<Rightarrow> spend_bundle \<Rightarrow> nat \<Rightarrow> (nat \<times> coin list) list
     \<Rightarrow> (nat \<times> coin list) list \<Rightarrow> transaction_record list \<Rightarrow> error + transaction_record list" where
  "removals_loop e r now offer fsb all_fees addition_dict [] txs = Inr txs"
| "removals_loop e r now offer fsb all_fees addition_dict ((wid, grouped_removals) # rest) txs =
     (case wallets r wid of
        None \<Rightarrow> Inl KeyError
      | Some w \<Rightarrow>
          let removed = sum_list (map amount grouped_removals);
              change_coins = (case map_of addition_dict wid of Some cs \<Rightarrow> cs | None \<Rightarrow> []);
              change_amount = sum_list (map amount change_coins)
          in case uint64 (int removed - int change_amount) of
               Inl err \<Rightarrow> Inl err
             | Inr sent_amount \<Rightarrow>
                 removals_loop e r now offer fsb all_fees addition_dict rest
                   (txs @ [outgoing_trade_tx e now offer fsb (w_id w) sent_amount all_fees
                             change_coins grouped_removals]))"

definition calculate_tx_records_for_offer ::
  "env \<Rightarrow> registry \<Rightarrow> nat \<Rightarrow> offer \<Rightarrow> bool \<Rightarrow> error + transaction_record list" where
  "calculate_tx_records_for_offer e r now offer validate =
     (let final_spend_bundle = (if validate then to_valid_spend e offer else offer_bundle offer);
          settlement_coins = concat (map snd (get_offered_coins e offer));
          settlement_coin_ids = map (coin_name e) settlement_coins
      in case uint64 (sb_fees final_spend_bundle) of
           Inl err \<Rightarrow> Inl err
         | Inr all_fees \<Rightarrow>
             (case additions_loop e r now offer final_spend_bundle settlement_coin_ids
                     (sb_not_ephemeral_additions final_spend_bundle) [] [] of
                Inl err \<Rightarrow> Inl err
              | Inr (txs, addition_dict) \<Rightarrow>
                  removals_loop e r now offer final_spend_bundle all_fees addition_dict
                    (removal_dict r (sb_removals final_spend_bundle)) txs))"

section \<open>Chain-event reconciliation\<close>

text \<open>
  The ids of this side's settlement payments: the offered coins of the trade's offer whose
  root removal is one of the primary coins found in the wallet's coin store.
\<close>

definition our_settlement_ids :: "env \<Rightarrow> offer \<Rightarrow> bytes32 list" where
  "our_settlement_ids e offer =
     (let primary_coin_ids = map (coin_name e) (get_primary_coins e offer);
          our_coin_records = get_multiple_coin_records e primary_coin_ids;
          our_primary_coins = map (\<lambda>cr. coin_name e (wcr_coin cr)) our_coin_records;
          all_settlement_payments = concat (map snd (get_offered_coins e offer));
          our_settlement_payments =
            filter (\<lambda>c. coin_name e (get_root_removal e offer c) \<in> set our_primary_coins)
                   all_settlement_payments
      in map (coin_name e) our_settlement_payments)"

definition confirm_tx :: "nat \<Rightarrow> transaction_record \<Rightarrow> transaction_record" where
  "confirm_tx height tx = tx\<lparr>confirmed_at_height := height, confirmed := True\<rparr>"

text \<open>
  \<open>coins_of_interest_farmed\<close> returns the exception it raised, if any, with the state
  it leaves: the status written on line 156 stays written when line 157 raises. The
  node's answer is a list, so the assertion of line 150 cannot fail;
  \<^verbatim>\<open>coin_states[0]\<close> is read in the branch where the list has an element. Its
  \<^verbatim>\<open>spent_height\<close> goes into height fields that are \<^verbatim>\<open>uint32\<close>: when it is
  \<^verbatim>\<open>None\<close> the first use raises, before anything is written. When
  \<^verbatim>\<open>spent_height\<close> of the event is \<^verbatim>\<open>None\<close> the source logs and goes on, so
  the event's height is not read here.
\<close>

definition coins_of_interest_farmed ::
  "env \<Rightarrow> nat \<Rightarrow> state \<Rightarrow> coin_state \<Rightarrow> nat option \<Rightarrow> error option \<times> state" where
  "coins_of_interest_farmed e now s cst fork_height =
     (case get_trade_by_coin s (cs_coin cst) of
        None \<Rightarrow> (None, s)
      | Some trade \<Rightarrow>
          let offer = tr_offer trade;
              ids = our_settlement_ids e offer;
              coin_states = get_coin_state e ids fork_height;
              coin_state_names = map (\<lambda>cs. coin_name e (cs_coin cs)) coin_states
          in if set ids \<inter> set coin_state_names \<noteq> {}
             then (case coin_states of
                     [] \<Rightarrow> (Some IndexError, s)
                   | cs0 # _ \<Rightarrow>
                       (case spent_height cs0 of
                          None \<Rightarrow> (Some TypeError, s)
                        | Some height \<Rightarrow>
                            let s1 = set_status_at e s (trade_id trade) CONFIRMED height
                            in case calculate_tx_records_for_offer e (reg s1) now offer False of
                                 Inl err \<Rightarrow> (Some err, s1)
                               | Inr tx_records \<Rightarrow>
                                   (None,
                                    fold (\<lambda>tx st. if status trade = PENDING_ACCEPT
                                                   then add_transaction st (confirm_tx height tx)
                                                   else st) tx_records s1)))
             else
               (let s1 = delete_trade_transactions s (trade_id trade)
                in if status trade = PENDING_CANCEL
                   then (None, set_status e s1 (trade_id trade) CANCELLED)
                   else if status trade = PENDING_CONFIRM
                   then (None, set_status e s1 (trade_id trade) FAILED)
                   else (None, s1)))"

section \<open>Offer validity\<close>

definition non_ephemeral_removals :: "env \<Rightarrow> offer \<Rightarrow> coin list" where
  "non_ephemeral_removals e offer =
     (let all_removals = sb_removals (offer_bundle offer);
          all_removal_names = map (coin_name e) all_removals
      in filter (\<lambda>c. parent_coin_info c \<notin> set all_removal_names) all_removals)"

definition queried_states :: "env \<Rightarrow> offer \<Rightarrow> coin_state list" where
  "queried_states e offer =
     get_coin_state e (map (coin_name e) (non_ephemeral_removals e offer)) None"

definition check_offer_validity :: "env \<Rightarrow> offer \<Rightarrow> bool" where
  "check_offer_validity e offer =
     (let coin_states = queried_states e offer
      in length coin_states = length (non_ephemeral_removals e offer)
         \<and> list_all (\<lambda>cs. spent_height cs = None) coin_states)"

section \<open>Offer construction\<close>

text \<open>
  A dictionary is a list of pairs in insertion order; \<^verbatim>\<open>d[k] = v\<close> replaces the value
  of a key that is there and appends a new key. The amounts of \<^verbatim>\<open>offer_dict\<close> are
  integers (entries that carry a \<^verbatim>\<open>Solver\<close> are outside this model). The variables
  of the first loop of \<^verbatim>\<open>_create_offer_for_ids\<close> are the record \<open>build\<close>; each step
  returns the exception it raised, if any, with the variables as they were then.
\<close>

fun dict_set :: "('k \<times> 'v) list \<Rightarrow> 'k \<Rightarrow> 'v \<Rightarrow> ('k \<times> 'v) list" where
  "dict_set [] k v = [(k, v)]"
| "dict_set ((k', v') # d) k v = (if k' = k then (k, v) # d else (k', v') # dict_set d k v)"

record build =
  coins_to_offer :: "(offer_key \<times> coin list) list"
  b_requested_payments :: "(bytes32 option \<times> payment list) list"
  fee_left_to_pay :: nat
  wallet_paying_fee :: "offer_key option"
  b_driver_dict :: "(bytes32 \<times> puzzle_info) list"
  b_io :: wallet_io

definition derive_ph :: "wallet \<Rightarrow> wallet_io \<Rightarrow> bytes32 \<times> wallet_io" where
  "derive_ph w i = (get_new_puzzlehash w (ph_index i), i\<lparr>ph_index := Suc (ph_index i)\<rparr>)"

definition log_call :: "call \<Rightarrow> wallet_io \<Rightarrow> wallet_io" where
  "log_call c i = i\<lparr>calls := calls i @ [c]\<rparr>"

definition reconcile_driver ::
  "build \<Rightarrow> bytes32 option \<Rightarrow> wallet option \<Rightarrow> error option \<times> build" where
  "reconcile_driver b asset_id wallet =
     (case asset_id of
        None \<Rightarrow> (None, b)
      | Some a \<Rightarrow>
          (case wallet of
             None \<Rightarrow> (None, b)
           | Some w \<Rightarrow>
               (case get_puzzle_info w of
                  None \<Rightarrow> (Some (NotIntegrated a), b)
                | Some info \<Rightarrow>
                    (case map_of (b_driver_dict b) a of
                       None \<Rightarrow> (None, b\<lparr>b_driver_dict := dict_set (b_driver_dict b) a (info a)\<rparr>)
                     | Some d \<Rightarrow>
                         if d \<noteq> info a then (Some (DriverConflict d (info a)), b)
                         else (None, b\<lparr>b_driver_dict := dict_set (b_driver_dict b) a (info a)\<rparr>)))))"

definition request_payment ::
  "build \<Rightarrow> bytes32 option \<Rightarrow> wallet option \<Rightarrow> bytes32 \<Rightarrow> int \<Rightarrow> bytes32 list
     \<Rightarrow> error option \<times> build" where
  "request_payment b asset_id wallet p2_ph solver ms =
     (case uint64 solver of
        Inl err \<Rightarrow> (Some err, b)
      | Inr amt \<Rightarrow>
          reconcile_driver
            (b\<lparr>b_requested_payments :=
                 dict_set (b_requested_payments b) asset_id
                   [\<lparr>p_puzzle_hash = p2_ph, p_amount = amt, p_memos = ms\<rparr>]\<rparr>)
            asset_id wallet)"

definition requested_entry :: "registry \<Rightarrow> build \<Rightarrow> offer_key \<Rightarrow> int \<Rightarrow> error option \<times> build" where
  "requested_entry r b key solver =
     (case key of
        WalletId i \<Rightarrow>
          (case uint32 i of
             Inl err \<Rightarrow> (Some err, b)
           | Inr wallet_id \<Rightarrow>
               (case wallets r wallet_id of
                  None \<Rightarrow> (Some KeyError, b)
                | Some w \<Rightarrow>
                    let b1 = b\<lparr>b_io := snd (derive_ph w (b_io b))\<rparr>;
                        p2_ph = fst (derive_ph w (b_io b))
                    in if w_type w = STANDARD_WALLET
                       then request_payment b1 None (Some w) p2_ph solver []
                       else (case get_asset_id w of
                               Some a \<Rightarrow> request_payment b1 (Some a) (Some w) p2_ph solver [p2_ph]
                             | None \<Rightarrow> (Some (CannotRequestAssets (w_id w)), b1))))
      | AssetId a \<Rightarrow>
          let b1 = b\<lparr>b_io := snd (derive_ph (main_wallet r) (b_io b))\<rparr>;
              p2_ph = fst (derive_ph (main_wallet r) (b_io b))
          in request_payment b1 (Some a) (get_wallet_for_asset_id r a) p2_ph solver [p2_ph])"

definition select_offer ::
  "build \<Rightarrow> offer_key \<Rightarrow> bytes32 option \<Rightarrow> wallet option \<Rightarrow> int \<Rightarrow> error option \<times> build" where
  "select_offer b key asset_id wallet solver =
     (if solver = 0 then (Some ZeroAmount, b)
      else case uint64 (abs solver) of
             Inl err \<Rightarrow> (Some err, b)
           | Inr amt \<Rightarrow>
               (case wallet of
                  None \<Rightarrow> (Some AttributeError, b)
                | Some w \<Rightarrow>
                    (case get_coins_to_offer w of
                       None \<Rightarrow> (Some (CannotOfferCoins (w_id w)), b)
                     | Some select \<Rightarrow>
                         let b1 = b\<lparr>b_io := log_call (GetCoinsToOffer key asset_id amt
                                                        (fee_left_to_pay b)) (b_io b)\<rparr>
                         in case select asset_id amt (fee_left_to_pay b) of
                              Inl err \<Rightarrow> (Some err, b1)
                            | Inr coins \<Rightarrow>
                                reconcile_driver
                                  (b1\<lparr>coins_to_offer := dict_set (coins_to_offer b1) key coins,
                                      fee_left_to_pay := 0,
                                      wallet_paying_fee := Some key\<rparr>)
                                  asset_id wallet)))"

definition offered_entry :: "registry \<Rightarrow> build \<Rightarrow> offer_key \<Rightarrow> int \<Rightarrow> error option \<times> build" where
  "offered_entry r b key solver =
     (case key of
        WalletId i \<Rightarrow>
          (case uint32 i of
             Inl err \<Rightarrow> (Some err, b)
           | Inr wallet_id \<Rightarrow>
               (case wallets r wallet_id of
                  None \<Rightarrow> (Some KeyError, b)
                | Some w \<Rightarrow>
                    if w_type w = STANDARD_WALLET
                    then select_offer b key None (Some w) solver
                    else (case get_asset_id w of
                            Some a \<Rightarrow> select_offer b key (Some a) (Some w) solver
                          | None \<Rightarrow> (Some (CannotOfferAssets (w_id w)), b))))
      | AssetId a \<Rightarrow> select_offer b key (Some a) (get_wallet_for_asset_id r a) solver)"

fun offer_entries :: "registry \<Rightarrow> build \<Rightarrow> (offer_key \<times> int) list \<Rightarrow> error option \<times> build" where
  "offer_entries r b [] = (None, b)"
| "offer_entries r b ((key, solver) # rest) =
     (case (if solver > 0 then requested_entry r b key solver
            else offered_entry r b key solver) of
        (Some err, b') \<Rightarrow> (Some err, b')
      | (None, b') \<Rightarrow> offer_entries r b' rest)"

text \<open>The second loop, over \<^verbatim>\<open>coins_to_offer.items()\<close>.\<close>

definition wallet_of_key :: "registry \<Rightarrow> offer_key \<Rightarrow> error + wallet" where
  "wallet_of_key r key =
     (case key of
        WalletId i \<Rightarrow>
          (if i < 0 then Inl KeyError
           else case wallets r (nat i) of None \<Rightarrow> Inl KeyError | Some w \<Rightarrow> Inr w)
      | AssetId a \<Rightarrow>
          (case get_wallet_for_asset_id r a of None \<Rightarrow> Inl AttributeError | Some w \<Rightarrow> Inr w))"

fun offer_transactions ::
  "registry \<Rightarrow> (offer_key \<times> int) list \<Rightarrow> nat \<Rightarrow> offer_key option \<Rightarrow> announcement list
     \<Rightarrow> wallet_io \<Rightarrow> (offer_key \<times> coin list) list \<Rightarrow> transaction_record list
     \<Rightarrow> (error + transaction_record list) \<times> wallet_io" where
  "offer_transactions r offer_dict fee paying anns i [] all_transactions =
     (Inr all_transactions, i)"
| "offer_transactions r offer_dict fee paying anns i ((key, selected_coins) # rest)
     all_transactions =
     (case wallet_of_key r key of
        Inl err \<Rightarrow> (Inl err, i)
      | Inr w \<Rightarrow>
          (case map_of offer_dict key of
             None \<Rightarrow> (Inl KeyError, i)
           | Some solver \<Rightarrow>
               let this_fee = (if Some key = paying then fee else 0);
                   i1 = log_call (CreateOfferTransactions key (nat (abs solver)) selected_coins
                                    anns this_fee) i
               in case create_offer_transactions w (nat (abs solver)) selected_coins anns
                         this_fee of
                    Inl err \<Rightarrow> (Inl err, i1)
                  | Inr txs \<Rightarrow>
                      offer_transactions r offer_dict fee paying anns i1 rest
                        (all_transactions @ txs)))"

text \<open>
  \<^verbatim>\<open>_create_offer_for_ids\<close>: the body of the \<^verbatim>\<open>try\<close>, and the handler that
  turns every exception into \<^verbatim>\<open>(False, None, str(e))\<close>. The dictionary
  \<^verbatim>\<open>driver_dict\<close> is changed in place, so it is returned with the wallet calls.
\<close>

definition create_offer_for_ids_inner ::
  "env \<Rightarrow> registry \<Rightarrow> wallet_io \<Rightarrow> (offer_key \<times> int) list \<Rightarrow> (bytes32 \<times> puzzle_info) list
     \<Rightarrow> nat \<Rightarrow> (bool \<times> offer option \<times> error option) \<times> (bytes32 \<times> puzzle_info) list \<times> wallet_io"
  where
  "create_offer_for_ids_inner e r i offer_dict dd fee =
     (case offer_entries r
             \<lparr>coins_to_offer = [], b_requested_payments = [], fee_left_to_pay = fee,
              wallet_paying_fee = None, b_driver_dict = dd, b_io = i\<rparr> offer_dict of
        (Some err, b) \<Rightarrow> ((False, None, Some err), b_driver_dict b, b_io b)
      | (None, b) \<Rightarrow>
          let all_coins = concat (map snd (coins_to_offer b));
              notarized_payments = notarize_payments e (b_requested_payments b) all_coins;
              announcements_to_assert =
                calculate_announcements e notarized_payments (b_driver_dict b)
          in case offer_transactions r offer_dict fee (wallet_paying_fee b)
                    announcements_to_assert (b_io b) (coins_to_offer b) [] of
               (Inl err, i') \<Rightarrow> ((False, None, Some err), b_driver_dict b, i')
             | (Inr all_transactions, i') \<Rightarrow>
                 let transaction_bundles = map spend_bundle all_transactions;
                     total_spend_bundle =
                       aggregate_bundles e (List.map_filter (\<lambda>x. x) transaction_bundles)
                 in ((True,
                      Some \<lparr>requested_payments = notarized_payments,
                            offer_bundle = total_spend_bundle,
                            driver_dict = b_driver_dict b\<rparr>,
                      None),
                     b_driver_dict b, i'))"

definition save_trade :: "env \<Rightarrow> state \<Rightarrow> trade_record \<Rightarrow> state" where
  "save_trade e s trade = add_trade_record e s trade"

text \<open>
  \<open>create_offer_for_ids\<close> returns, with the state it leaves, either the exception it
  raised or its tuple.
\<close>

definition create_offer_for_ids ::
  "env \<Rightarrow> nat \<Rightarrow> state \<Rightarrow> (offer_key \<times> int) list \<Rightarrow> (bytes32 \<times> puzzle_info) list option \<Rightarrow> nat
     \<Rightarrow> bool \<Rightarrow> (error + (bool \<times> trade_record option \<times> error option)) \<times> state" where
  "create_offer_for_ids e now s offer dd_opt fee validate_only =
     (let dd = (case dd_opt of None \<Rightarrow> [] | Some d \<Rightarrow> d);
          res = create_offer_for_ids_inner e (reg s) (io s) offer dd fee;
          success = fst (fst res);
          created_offer = fst (snd (fst res));
          err = snd (snd (fst res));
          s1 = s\<lparr>io := snd (snd res)\<rparr>
      in case created_offer of
           None \<Rightarrow> (Inl (ErrorCreatingOffer err), s1)
         | Some co \<Rightarrow>
             if \<not> success then (Inl (ErrorCreatingOffer err), s1)
             else
               let trade_offer =
                     \<lparr>confirmed_at_index = 0, accepted_at_time = None,
                      created_at_time = now, is_my_offer = True, sent = 0, tr_offer = co,
                      taken_offer = None, coins_of_interest = get_involved_coins e co,
                      trade_id = offer_name e co, status = PENDING_ACCEPT, sent_to = []\<rparr>
               in (Inr (success, Some trade_offer, err),
                   if \<not> validate_only then save_trade e s1 trade_offer else s1))"

section \<open>Responding to an offer\<close>

text \<open>
  The third component of the tuple \<open>respond_to_offer\<close> returns is one of its two
  messages or the text of a construction error.
\<close>

datatype message =
    NoWalletForAsset bytes32   \<comment> \<open>"Do not have a wallet for asset ID: ... to fulfill offer"\<close>
  | OfferNoLongerValid         \<comment> \<open>"This offer is no longer valid"\<close>
  | ErrorText error

fun take_offer_entries ::
  "registry \<Rightarrow> (bytes32 option \<times> int) list \<Rightarrow> (offer_key \<times> int) list
     \<Rightarrow> bytes32 + (offer_key \<times> int) list" where
  "take_offer_entries r [] take_offer_dict = Inr take_offer_dict"
| "take_offer_entries r ((asset_id, amt) # rest) take_offer_dict =
     (case asset_id of
        None \<Rightarrow>
          take_offer_entries r rest
            (dict_set take_offer_dict (WalletId (int (w_id (main_wallet r)))) amt)
      | Some a \<Rightarrow>
          if get_wallet_for_asset_id r a = None \<and> amt < 0 then Inl a
          else take_offer_entries r rest (dict_set take_offer_dict (AssetId a) amt))"

fun maybe_create_wallets_for_offer ::
  "env \<Rightarrow> offer \<Rightarrow> registry \<Rightarrow> bytes32 option list \<Rightarrow> error + registry" where
  "maybe_create_wallets_for_offer e offer r [] = Inr r"
| "maybe_create_wallets_for_offer e offer r (None # keys) =
     maybe_create_wallets_for_offer e offer r keys"
| "maybe_create_wallets_for_offer e offer r (Some k # keys) =
     (case map_of (driver_dict offer) k of
        None \<Rightarrow> Inl KeyError
      | Some info \<Rightarrow>
          (case get_wallet_for_puzzle_info r info of
             None \<Rightarrow>
               maybe_create_wallets_for_offer e offer (create_wallet_for_puzzle_info e r info) keys
           | Some w \<Rightarrow> maybe_create_wallets_for_offer e offer r keys))"

definition push_tx :: "spend_bundle \<Rightarrow> nat \<Rightarrow> transaction_record" where
  "push_tx final_spend_bundle now =
     \<lparr>confirmed_at_height = 0, tx_created_at_time = now, to_puzzle_hash = 1,
      tx_amount = 0, fee_amount = 0, confirmed = False, tx_sent = 0,
      spend_bundle = Some final_spend_bundle, additions = [], removals = [],
      tx_wallet_id = 0, tx_sent_to = [], tx_trade_id = Some 1, tx_type = OUTGOING_TRADE,
      tx_name = sb_name final_spend_bundle, memos = []\<rparr>"

text \<open>
  The part of \<open>respond_to_offer\<close> after the complementary offer is built: aggregation,
  the assertion, the wallets of new assets, the trade record and the submission.
\<close>

definition settle_offer ::
  "env \<Rightarrow> nat \<Rightarrow> state \<Rightarrow> offer \<Rightarrow> offer
     \<Rightarrow> (error + (bool \<times> trade_record option \<times> message option)) \<times> state" where
  "settle_offer e now s offer take_offer =
     (let complete_offer = aggregate_offers e [offer, take_offer]
      in if \<not> is_valid e complete_offer then (Inl AssertionError, s)
         else
           let final_spend_bundle = to_valid_spend e complete_offer
           in case maybe_create_wallets_for_offer e complete_offer (reg s)
                     (map fst (arbitrage e complete_offer)) of
                Inl err \<Rightarrow> (Inl err, s)
              | Inr r' \<Rightarrow>
                  let s1 = s\<lparr>reg := r'\<rparr>
                  in case calculate_tx_records_for_offer e r' now complete_offer True of
                       Inl err \<Rightarrow> (Inl err, s1)
                     | Inr tx_records \<Rightarrow>
                         let trade_record =
                               \<lparr>confirmed_at_index = 0, accepted_at_time = Some now,
                                created_at_time = now, is_my_offer = False, sent = 0,
                                tr_offer = complete_offer, taken_offer = Some offer,
                                coins_of_interest = get_involved_coins e complete_offer,
                                trade_id = offer_name e complete_offer,
                                status = PENDING_CONFIRM, sent_to = []\<rparr>;
                             s2 = save_trade e s1 trade_record;
                             s3 = add_pending_transaction s2 (push_tx final_spend_bundle now)
                         in (Inr (True, Some trade_record, None),
                             fold (\<lambda>tx st. add_transaction st tx) tx_records s3))"

definition respond_to_offer ::
  "env \<Rightarrow> nat \<Rightarrow> state \<Rightarrow> offer \<Rightarrow> nat
     \<Rightarrow> (error + (bool \<times> trade_record option \<times> message option)) \<times> state" where
  "respond_to_offer e now s offer fee =
     (case take_offer_entries (reg s) (arbitrage e offer) [] of
        Inl a \<Rightarrow> (Inr (False, None, Some (NoWalletForAsset a)), s)
      | Inr take_offer_dict \<Rightarrow>
          if \<not> check_offer_validity e offer
          then (Inr (False, None, Some OfferNoLongerValid), s)
          else
            let res = create_offer_for_ids_inner e (reg s) (io s) take_offer_dict
                        (driver_dict offer) fee;
                success = fst (fst res);
                take_offer = fst (snd (fst res));
                err = snd (snd (fst res));
                s1 = s\<lparr>io := snd (snd res)\<rparr>
            in case take_offer of
                 None \<Rightarrow> (Inr (False, None, map_option ErrorText err), s1)
               | Some t \<Rightarrow>
                   if \<not> success then (Inr (False, None, map_option ErrorText err), s1)
                   else settle_offer e now s1 (offer\<lparr>driver_dict := fst (snd res)\<rparr>) t)"

section \<open>Cancelling an offer\<close>

definition cancel_pending_offer :: "env \<Rightarrow> state \<Rightarrow> bytes32 \<Rightarrow> state" where
  "cancel_pending_offer e s tid = set_status e s tid CANCELLED"

definition cancellation_tx :: "env \<Rightarrow> nat \<Rightarrow> nat \<Rightarrow> wallet \<Rightarrow> bytes32 \<Rightarrow> coin \<Rightarrow> transaction_record" where
  "cancellation_tx e now fee w new_ph c =
     (let cancellation_addition =
            \<lparr>parent_coin_info = coin_name e c, puzzle_hash = new_ph, amount = amount c\<rparr>
      in \<lparr>confirmed_at_height = 0, tx_created_at_time = now, to_puzzle_hash = new_ph,
          tx_amount = amount c, fee_amount = fee, confirmed = False, tx_sent = 10,
          spend_bundle = None, additions = [cancellation_addition], removals = [c],
          tx_wallet_id = w_id w, tx_sent_to = [], tx_trade_id = None, tx_type = INCOMING_TX,
          tx_name = coin_name e cancellation_addition, memos = []\<rparr>)"

text \<open>
  The coins a standard wallet spends for one primary coin. A Python set of coins is a list
  without repetition: \<^verbatim>\<open>selected_coins.add(coin)\<close> is \<open>List.insert\<close>.
\<close>

definition coins_for_cancel ::
  "wallet \<Rightarrow> nat \<Rightarrow> coin \<Rightarrow> wallet_io \<Rightarrow> (error + coin list) \<times> wallet_io" where
  "coins_for_cancel w fee_to_pay c i =
     (if fee_to_pay > amount c
      then (let i1 = log_call (SelectCoins (w_id w) (fee_to_pay - amount c) [c]) i
            in case select_coins w (fee_to_pay - amount c) [c] of
                 Inl err \<Rightarrow> (Inl err, i1)
               | Inr sel \<Rightarrow> (Inr (List.insert c (remdups sel)), i1))
      else (Inr [c], i))"

definition cancel_spend ::
  "wallet \<Rightarrow> nat \<Rightarrow> bytes32 \<Rightarrow> coin \<Rightarrow> wallet_io \<Rightarrow> (error + transaction_record list) \<times> wallet_io"
  where
  "cancel_spend w fee_to_pay new_ph c i =
     (if w_type w = STANDARD_WALLET
      then (case coins_for_cancel w fee_to_pay c i of
              (Inl err, i1) \<Rightarrow> (Inl err, i1)
            | (Inr selected_coins, i1) \<Rightarrow>
                (case uint64 (int (sum_list (map amount selected_coins)) - int fee_to_pay) of
                   Inl err \<Rightarrow> (Inl err, i1)
                 | Inr amt \<Rightarrow>
                     let i2 = log_call (GenerateSignedTransaction (w_id w) amt new_ph fee_to_pay
                                          selected_coins) i1
                     in case generate_signed_transaction w amt new_ph fee_to_pay
                               selected_coins of
                          Inl err \<Rightarrow> (Inl err, i2)
                        | Inr tx \<Rightarrow> (Inr [tx], i2)))
      else (let i1 = log_call (GenerateSignedTransactions (w_id w) [amount c] [new_ph]
                                 fee_to_pay [c]) i
            in (generate_signed_transactions w [amount c] [new_ph] fee_to_pay [c], i1)))"

fun cancel_coins ::
  "env \<Rightarrow> registry \<Rightarrow> nat \<Rightarrow> nat \<Rightarrow> nat \<Rightarrow> wallet_io \<Rightarrow> coin list \<Rightarrow> transaction_record list
     \<Rightarrow> (error + transaction_record list) \<times> wallet_io" where
  "cancel_coins e r now fee fee_to_pay i [] all_txs = (Inr all_txs, i)"
| "cancel_coins e r now fee fee_to_pay i (c # rest) all_txs =
     (case get_wallet_for_coin r (coin_name e c) of
        None \<Rightarrow> cancel_coins e r now fee fee_to_pay i rest all_txs
      | Some w \<Rightarrow>
          let new_ph = fst (derive_ph w i)
          in case cancel_spend w fee_to_pay new_ph c (snd (derive_ph w i)) of
               (Inl err, i1) \<Rightarrow> (Inl err, i1)
             | (Inr txs, i1) \<Rightarrow>
                 cancel_coins e r now fee 0 i1 rest
                   (all_txs @ txs @ [cancellation_tx e now fee w new_ph c]))"

definition cancel_pending_offer_safely ::
  "env \<Rightarrow> nat \<Rightarrow> state \<Rightarrow> bytes32 \<Rightarrow> nat
     \<Rightarrow> (error + transaction_record list option) \<times> state" where
  "cancel_pending_offer_safely e now s tid fee =
     (case get_trade_record s tid of
        None \<Rightarrow> (Inr None, s)
      | Some trade \<Rightarrow>
          (case cancel_coins e (reg s) now fee fee (io s)
                  (get_primary_coins e (tr_offer trade)) [] of
             (Inl err, i') \<Rightarrow> (Inl err, s\<lparr>io := i'\<rparr>)
           | (Inr all_txs, i') \<Rightarrow>
               let s1 = fold (\<lambda>tx st. add_pending_transaction st (tx\<lparr>fee_amount := fee\<rparr>))
                          all_txs (s\<lparr>io := i'\<rparr>)
               in (Inr (Some all_txs), set_status e s1 tid PENDING_CANCEL)))"

section \<open>A small world for concrete runs\<close>

text \<open>
  One trade of two primary coins: \<open>c_ours\<close> is in the wallet's coin store and
  \<open>c_theirs\<close> is the counterpart's. Each is spent into a settlement payment. The name of
  a coin is its puzzle hash plus 100 here. The node's answer to the coin-state query is
  the argument of \<open>ex_env\<close>.
\<close>

definition c_ours :: coin where
  "c_ours = \<lparr>parent_coin_info = 0, puzzle_hash = 11, amount = 100\<rparr>"

definition c_theirs :: coin where
  "c_theirs = \<lparr>parent_coin_info = 0, puzzle_hash = 12, amount = 50\<rparr>"

definition s_ours :: coin where
  "s_ours = \<lparr>parent_coin_info = 111, puzzle_hash = 21, amount = 100\<rparr>"

definition s_theirs :: coin where
  "s_theirs = \<lparr>parent_coin_info = 112, puzzle_hash = 22, amount = 50\<rparr>"

definition c_received :: coin where
  "c_received = \<lparr>parent_coin_info = 122, puzzle_hash = 31, amount = 50\<rparr>"

definition c_extra :: coin where
  "c_extra = \<lparr>parent_coin_info = 0, puzzle_hash = 13, amount = 40\<rparr>"

definition ex_offer :: offer where
  "ex_offer =
     \<lparr>requested_payments = [],
      offer_bundle = \<lparr>sb_name = 7, sb_removals = [c_ours, s_ours],
                      sb_not_ephemeral_additions = [c_received], sb_fees = 0\<rparr>,
      driver_dict = []\<rparr>"

definition ex_tx :: "nat \<Rightarrow> transaction_record" where
  "ex_tx n =
     \<lparr>confirmed_at_height = 0, tx_created_at_time = 0, to_puzzle_hash = n,
      tx_amount = n, fee_amount = 0, confirmed = False, tx_sent = 0, spend_bundle = None,
      additions = [], removals = [], tx_wallet_id = 1, tx_sent_to = [], tx_trade_id = None,
      tx_type = OUTGOING_TRADE, tx_name = n, memos = []\<rparr>"

definition ex_wallet :: wallet where
  "ex_wallet =
     \<lparr>w_id = 1, w_type = STANDARD_WALLET, get_asset_id = None,
      get_new_puzzlehash = (\<lambda>n. 1000 + n),
      get_coins_to_offer = Some (\<lambda>a amt fee. Inr [c_ours]),
      get_puzzle_info = None,
      create_offer_transactions = (\<lambda>amt coins anns fee. Inr [ex_tx fee]),
      convert_puzzle_hash = (\<lambda>h. h),
      select_coins = (\<lambda>amt exclude. Inr [c_extra]),
      generate_signed_transaction = (\<lambda>amt ph fee coins. Inr (ex_tx amt)),
      generate_signed_transactions = (\<lambda>amts phs fee coins. Inr [ex_tx fee])\<rparr>"

definition ex_cat_wallet :: wallet where
  "ex_cat_wallet =
     \<lparr>w_id = 2, w_type = OTHER_WALLET, get_asset_id = Some 5,
      get_new_puzzlehash = (\<lambda>n. 2000 + n),
      get_coins_to_offer = Some (\<lambda>a amt fee. Inr [c_theirs]),
      get_puzzle_info = Some (\<lambda>a. 77),
      create_offer_transactions = (\<lambda>amt coins anns fee. Inr [ex_tx fee]),
      convert_puzzle_hash = (\<lambda>h. h),
      select_coins = (\<lambda>amt exclude. Inr [c_extra]),
      generate_signed_transaction = (\<lambda>amt ph fee coins. Inr (ex_tx amt)),
      generate_signed_transactions = (\<lambda>amts phs fee coins. Inr [ex_tx fee])\<rparr>"

definition ex_reg :: registry where
  "ex_reg =
     \<lparr>wallets = (\<lambda>i. if i = 1 then Some ex_wallet else if i = 2 then Some ex_cat_wallet else None),
      main_wallet = ex_wallet,
      get_wallet_for_asset_id = (\<lambda>a. if a = 5 then Some ex_cat_wallet else None),
      get_wallet_for_puzzle_info = (\<lambda>p. if p = 77 then Some ex_cat_wallet else None),
      get_wallet_id_for_puzzle_hash = (\<lambda>h. if h = 11 \<or> h = 31 then Some 1 else None),
      get_wallet_for_coin =
        (\<lambda>n. if n = 111 then Some ex_wallet else if n = 113 then Some ex_cat_wallet else None)\<rparr>"

definition ex_env :: "coin_state list \<Rightarrow> env" where
  "ex_env answer =
     \<lparr>coin_name = (\<lambda>c. puzzle_hash c + 100),
      offer_name = (\<lambda>offer. 9),
      std_hash = (\<lambda>a b. a + b),
      removal_tree_hash = (\<lambda>cs. length cs),
      get_primary_coins = (\<lambda>offer. [c_ours, c_theirs]),
      get_offered_coins = (\<lambda>offer. [(None, [s_ours]), (Some 5, [s_theirs])]),
      get_root_removal = (\<lambda>offer c. if c = s_ours then c_ours else c_theirs),
      get_involved_coins = (\<lambda>offer. [c_ours, c_theirs]),
      arbitrage = (\<lambda>offer. [(Some 6, - 5)]),
      to_valid_spend = offer_bundle,
      is_valid = (\<lambda>offer. True),
      aggregate_offers = (\<lambda>offers. ex_offer),
      aggregate_bundles = (\<lambda>bs. \<lparr>sb_name = 7, sb_removals = [],
                                  sb_not_ephemeral_additions = [], sb_fees = 0\<rparr>),
      notarize_payments = (\<lambda>ps coins. ps),
      calculate_announcements = (\<lambda>ps dd. []),
      get_multiple_coin_records =
        (\<lambda>ids. map (\<lambda>i. \<lparr>wcr_coin = c_ours, wcr_wallet_id = 1\<rparr>) (filter (\<lambda>i. i = 111) ids)),
      get_coin_state = (\<lambda>ids fork_height. answer),
      store_order = (\<lambda>tid ts. ts),
      create_wallet_for_puzzle_info = (\<lambda>r info. r)\<rparr>"

definition ex_trade :: "trade_status \<Rightarrow> trade_record" where
  "ex_trade st =
     \<lparr>confirmed_at_index = 0, accepted_at_time = None, created_at_time = 0,
      is_my_offer = True, sent = 0, tr_offer = ex_offer, taken_offer = None,
      coins_of_interest = [c_ours, c_theirs], trade_id = 9, status = st, sent_to = []\<rparr>"

definition ex_state :: "trade_status \<Rightarrow> state" where
  "ex_state st =
     \<lparr>trades = [ex_trade st], status_log = [], transactions = [], pending_transactions = [], reg = ex_reg,
      io = \<lparr>ph_index = 0, calls = []\<rparr>\<rparr>"

definition ex_trade_tx :: transaction_record where
  "ex_trade_tx = (ex_tx 3)\<lparr>tx_trade_id := Some 9\<rparr>"

definition spent_at :: "coin \<Rightarrow> nat \<Rightarrow> coin_state" where
  "spent_at c h = \<lparr>cs_coin = c, spent_height = Some h, created_height = Some h\<rparr>"

definition unspent :: "coin \<Rightarrow> coin_state" where
  "unspent c = \<lparr>cs_coin = c, spent_height = None, created_height = Some 1\<rparr>"

definition ex_offer_twice :: offer where
  "ex_offer_twice =
     ex_offer\<lparr>offer_bundle := (offer_bundle ex_offer)\<lparr>sb_removals := [c_ours, c_ours]\<rparr>\<rparr>"

text \<open>
  A second trade on the same coins, and a store that lists the record it has just
  written last.
\<close>

definition ex_two_trades :: state where
  "ex_two_trades =
     (ex_state PENDING_ACCEPT)
       \<lparr>trades := [ex_trade PENDING_ACCEPT, (ex_trade PENDING_ACCEPT)\<lparr>trade_id := 10\<rparr>]\<rparr>"

definition written_last :: "bytes32 \<Rightarrow> trade_record list \<Rightarrow> trade_record list" where
  "written_last tid ts =
     filter (\<lambda>t. trade_id t \<noteq> tid) ts @ filter (\<lambda>t. trade_id t = tid) ts"

text \<open>
  A wallet that is not the standard one and hands out the puzzle hash of \<open>c_extra\<close>
  again, as the only wallet that owns a coin.
\<close>

definition ex_reusing_state :: state where
  "ex_reusing_state =
     (ex_state PENDING_ACCEPT)
       \<lparr>reg := ex_reg\<lparr>get_wallet_for_coin :=
                        (\<lambda>n. if n = 113
                              then Some (ex_cat_wallet\<lparr>get_new_puzzlehash := (\<lambda>n. 13)\<rparr>)
                              else None)\<rparr>\<rparr>"

section \<open>Notions used to state the properties\<close>

text \<open>The exception a computation raised, if any.\<close>

definition raised :: "error + 'a \<Rightarrow> error option" where
  "raised x = (case x of Inl err \<Rightarrow> Some err | Inr v \<Rightarrow> None)"

text \<open>The keys of the coin-selection calls in a log of wallet calls.\<close>

fun queried_keys :: "call list \<Rightarrow> offer_key list" where
  "queried_keys [] = []"
| "queried_keys (GetCoinsToOffer k a amt f # cs) = k # queried_keys cs"
| "queried_keys (c # cs) = queried_keys cs"

text \<open>
  The entries \<open>pre\<close> of an offer dictionary pass when the first loop of
  \<^verbatim>\<open>_create_offer_for_ids\<close> goes through them without an exception.
\<close>

definition entries_pass ::
  "registry \<Rightarrow> wallet_io \<Rightarrow> (bytes32 \<times> puzzle_info) list \<Rightarrow> nat \<Rightarrow> (offer_key \<times> int) list
     \<Rightarrow> bool" where
  "entries_pass r i dd fee pre =
     (fst (offer_entries r
             \<lparr>coins_to_offer = [], b_requested_payments = [], fee_left_to_pay = fee,
              wallet_paying_fee = None, b_driver_dict = dd, b_io = i\<rparr> pre) = None)"

text \<open>
  The first asset of an arbitrage, in its order, that this side has to supply (its amount
  is negative) and that has no wallet.
\<close>

fun missing_wallet :: "registry \<Rightarrow> (bytes32 option \<times> int) list \<Rightarrow> bytes32 option" where
  "missing_wallet r [] = None"
| "missing_wallet r ((None, amt) # rest) = missing_wallet r rest"
| "missing_wallet r ((Some a, amt) # rest) =
     (if get_wallet_for_asset_id r a = None \<and> amt < 0 then Some a
      else missing_wallet r rest)"

text \<open>
  What the cancellation of one primary coin \<open>c\<close> leaves, when \<open>f\<close> is the fee passed
  with it and \<open>ph\<close> the new puzzle hash: the wallet calls \<open>seg\<close> and the records
  \<open>recs\<close> the wallet returned. A standard wallet is asked for one transaction that
  spends \<open>coins\<close> and sends their total less the fee. When the fee exceeds the amount
  of \<open>c\<close>, the wallet has first been asked to select coins for the difference, with
  \<open>c\<close> excluded, and \<open>coins\<close> are \<open>c\<close> and the coins selected, each once;
  otherwise \<open>c\<close> is spent alone. Any other wallet is asked to send the amount of
  \<open>c\<close> from \<open>c\<close> alone, with the fee.
\<close>

fun spend_coins :: "call \<Rightarrow> coin list" where
  "spend_coins (GenerateSignedTransaction wid amt ph f coins) = coins"
| "spend_coins (GenerateSignedTransactions wid amts phs f coins) = coins"
| "spend_coins c = []"

definition standard_spend ::
  "wallet \<Rightarrow> bytes32 \<Rightarrow> coin \<Rightarrow> nat \<Rightarrow> call list \<Rightarrow> transaction_record list \<Rightarrow> bool" where
  "standard_spend w ph c f seg recs =
     (let coins = (if seg = [] then [] else spend_coins (last seg));
          total = sum_list (map amount coins)
      in seg \<noteq> [] \<and> f \<le> total
         \<and> last seg = GenerateSignedTransaction (w_id w) (total - f) ph f coins
         \<and> map_sum (\<lambda>err. err) (\<lambda>tx. [tx])
              (generate_signed_transaction w (total - f) ph f coins) = Inr recs
         \<and> (if f > amount c
             then butlast seg = [SelectCoins (w_id w) (f - amount c) [c]]
                  \<and> (case select_coins w (f - amount c) [c] of
                        Inl err \<Rightarrow> False
                      | Inr sel \<Rightarrow> distinct coins \<and> set coins = insert c (set sel))
             else butlast seg = [] \<and> coins = [c]))"

definition other_spend ::
  "wallet \<Rightarrow> bytes32 \<Rightarrow> coin \<Rightarrow> nat \<Rightarrow> call list \<Rightarrow> transaction_record list \<Rightarrow> bool" where
  "other_spend w ph c f seg recs =
     (seg = [GenerateSignedTransactions (w_id w) [amount c] [ph] f [c]]
      \<and> generate_signed_transactions w [amount c] [ph] f [c] = Inr recs)"

text \<open>
  \<open>respent\<close>: the \<open>j\<close>-th address of the wallet that owns \<open>c\<close> is the new puzzle
  hash, the calls are those of the wallet's kind, and the records are the wallet's
  followed by the record of the cancellation.
\<close>

definition respent ::
  "env \<Rightarrow> registry \<Rightarrow> nat \<Rightarrow> nat \<Rightarrow> (nat \<times> coin) \<times> nat
     \<Rightarrow> call list \<times> transaction_record list \<Rightarrow> bool" where
  "respent e r now fee p part =
     (case get_wallet_for_coin r (coin_name e (snd (fst p))) of
        None \<Rightarrow> False
      | Some w \<Rightarrow>
          (let j = fst (fst p); c = snd (fst p); f = snd p;
               ph = get_new_puzzlehash w j
           in snd part \<noteq> []
              \<and> last (snd part) = cancellation_tx e now fee w ph c
              \<and> (if w_type w = STANDARD_WALLET
                  then standard_spend w ph c f (fst part) (butlast (snd part))
                  else other_spend w ph c f (fst part) (butlast (snd part)))))"

definition has_wallet :: "env \<Rightarrow> registry \<Rightarrow> coin \<Rightarrow> bool" where
  "has_wallet e r c = (get_wallet_for_coin r (coin_name e c) \<noteq> None)"

section \<open>Facts about the stores\<close>

lemma set_listing: "set (listing e tid ts) = set ts"
  by (simp add: listing_def)

lemma stored_after_write:
  assumes same_id: "\<And>t. trade_id (f t) = trade_id t"
      and stored: "\<exists>x\<in>set ts. trade_id x = tid"
  shows "\<exists>y x. find (\<lambda>x. trade_id x = tid)
                  (listing e tid (map (\<lambda>t. if trade_id t = tid then f t else t) ts)) = Some y
               \<and> x \<in> set ts \<and> trade_id x = tid \<and> y = f x"
proof -
  let ?g = "\<lambda>t. if trade_id t = tid then f t else t"
  let ?L = "listing e tid (map ?g ts)"
  have members: "set ?L = ?g ` set ts"
    by (simp add: set_listing)
  from stored obtain x0 where "x0 \<in> set ts" "trade_id x0 = tid" by blast
  then have "f x0 \<in> set ?L" "trade_id (f x0) = tid"
    using members same_id by force+
  then have "find (\<lambda>x. trade_id x = tid) ?L \<noteq> None"
    by (auto simp: find_None_iff)
  then obtain y where y: "find (\<lambda>x. trade_id x = tid) ?L = Some y" by blast
  then have "y \<in> set ?L" "trade_id y = tid"
    by (auto simp: find_Some_iff)
  then obtain x where "x \<in> set ts" "y = ?g x" using members by auto
  with \<open>trade_id y = tid\<close> same_id have "trade_id x = tid" "y = f x"
    by (auto split: if_splits)
  with y \<open>x \<in> set ts\<close> show ?thesis by blast
qed

lemma get_trade_by_coin_SomeD:
  "get_trade_by_coin s c = Some t \<Longrightarrow>
     t \<in> set (trades s) \<and> status t \<noteq> CANCELLED \<and> c \<in> set (coins_of_interest t)"
  by (auto simp: get_trade_by_coin_def get_all_trades_def find_Some_iff)

lemma fold_add_transaction:
  "fold (\<lambda>tx st. if P then add_transaction st (f tx) else st) txs s =
     s\<lparr>transactions := transactions s @ (if P then map f txs else [])\<rparr>"
  by (induction txs arbitrary: s) (auto simp: add_transaction_def)

section \<open>The trade a coin belongs to\<close>

text \<open>
  Claim C10. \<open>get_trade_by_coin\<close> returns a stored trade that lists the coin among its
  coins of interest and is not \<open>CANCELLED\<close>, and returns \<open>None\<close> exactly when the
  store has no such trade. Trades that are \<open>CONFIRMED\<close> or \<open>FAILED\<close> are returned
  like any other, so \<open>coins_of_interest_farmed\<close> runs its decision rule on them again:
  in the small world, an event for a \<open>FAILED\<close> trade whose settlement payment is now
  known to the node moves the trade to \<open>CONFIRMED\<close>.
\<close>

theorem get_trade_by_coin_eligible:
  "(get_trade_by_coin s c = Some t \<longrightarrow>
      t \<in> set (trades s) \<and> c \<in> set (coins_of_interest t) \<and> status t \<noteq> CANCELLED)
   \<and> (get_trade_by_coin s c = None \<longleftrightarrow>
        \<not> (\<exists>t\<in>set (trades s). status t \<noteq> CANCELLED \<and> c \<in> set (coins_of_interest t)))
   \<and> get_trade_by_coin (ex_state CONFIRMED) c_theirs = Some (ex_trade CONFIRMED)
   \<and> get_trade_by_coin (ex_state FAILED) c_theirs = Some (ex_trade FAILED)
   \<and> fst (coins_of_interest_farmed (ex_env [spent_at s_ours 7]) 0 (ex_state FAILED)
            (spent_at c_theirs 7) None) = None
   \<and> map status (trades (snd (coins_of_interest_farmed (ex_env [spent_at s_ours 7]) 0
                                 (ex_state FAILED) (spent_at c_theirs 7) None)))
       = [CONFIRMED]"
proof -
  have found: "get_trade_by_coin s c = Some t \<longrightarrow>
      t \<in> set (trades s) \<and> c \<in> set (coins_of_interest t) \<and> status t \<noteq> CANCELLED"
    using get_trade_by_coin_SomeD by blast
  have missing: "get_trade_by_coin s c = None \<longleftrightarrow>
        \<not> (\<exists>t\<in>set (trades s). status t \<noteq> CANCELLED \<and> c \<in> set (coins_of_interest t))"
    by (auto simp: get_trade_by_coin_def get_all_trades_def find_None_iff)
  have confirmed_found: "get_trade_by_coin (ex_state CONFIRMED) c_theirs = Some (ex_trade CONFIRMED)"
    by code_simp
  have failed_found: "get_trade_by_coin (ex_state FAILED) c_theirs = Some (ex_trade FAILED)"
    by code_simp
  have returns: "fst (coins_of_interest_farmed (ex_env [spent_at s_ours 7]) 0 (ex_state FAILED)
            (spent_at c_theirs 7) None) = None"
    by code_simp
  have rerun: "map status (trades (snd (coins_of_interest_farmed (ex_env [spent_at s_ours 7]) 0
                                 (ex_state FAILED) (spent_at c_theirs 7) None)))
       = [CONFIRMED]"
    by code_simp
  from found missing confirmed_found failed_found returns rerun show ?thesis by blast
qed

theorem get_trade_by_coin_eligible_witness:
  "get_trade_by_coin (ex_state FAILED) c_theirs = Some (ex_trade FAILED)
   \<and> ex_trade FAILED \<in> set (trades (ex_state FAILED))
   \<and> c_theirs \<in> set (coins_of_interest (ex_trade FAILED))
   \<and> status (ex_trade FAILED) \<noteq> CANCELLED"
  using get_trade_by_coin_eligible [of "ex_state FAILED" c_theirs "ex_trade FAILED"]
  by blast

section \<open>Reconciliation with the chain\<close>

lemma farmed_confirm_branch:
  assumes found: "get_trade_by_coin s (cs_coin cst) = Some t"
      and known: "set (our_settlement_ids e (tr_offer t))
                    \<inter> set (map (\<lambda>cs. coin_name e (cs_coin cs))
                              (get_coin_state e (our_settlement_ids e (tr_offer t)) fh)) \<noteq> {}"
      and first: "spent_height (hd (get_coin_state e (our_settlement_ids e (tr_offer t)) fh)) = Some h"
  shows "coins_of_interest_farmed e now s cst fh =
     (case calculate_tx_records_for_offer e (reg s) now (tr_offer t) False of
        Inl err \<Rightarrow> (Some err, set_status_at e s (trade_id t) CONFIRMED h)
      | Inr txs \<Rightarrow>
          (None, (set_status_at e s (trade_id t) CONFIRMED h)
                   \<lparr>transactions := transactions s @
                      (if status t = PENDING_ACCEPT then map (confirm_tx h) txs else [])\<rparr>))"
proof -
  let ?states = "get_coin_state e (our_settlement_ids e (tr_offer t)) fh"
  from known have "?states \<noteq> []" by auto
  then obtain cs0 rest where st: "?states = cs0 # rest" by (cases ?states) auto
  with first have h: "spent_height cs0 = Some h" by simp
  have r: "reg (set_status_at e s (trade_id t) CONFIRMED h) = reg s"
    by (simp add: set_status_at_def)
  have tr: "transactions (set_status_at e s (trade_id t) CONFIRMED h) = transactions s"
    by (simp add: set_status_at_def)
  show ?thesis
    using known st h
    by (simp add: coins_of_interest_farmed_def found Let_def r tr fold_add_transaction
             split: sum.splits)
qed

lemma confirmed_stored:
  assumes "\<exists>x\<in>set (trades s). trade_id x = tid"
  shows "\<exists>r. get_trade_record (set_status_at e s tid CONFIRMED h) tid = Some r
           \<and> status r = CONFIRMED \<and> confirmed_at_index r = h"
  using stored_after_write[of "\<lambda>x. x\<lparr>status := CONFIRMED, confirmed_at_index := h\<rparr>"
                              "trades s" tid e, OF _ assms]
  by (auto simp: get_trade_record_def set_status_at_def)

text \<open>
  Claim C1, as amended. The event is for a coin of the trade \<open>t\<close>, the node reports one
  of this side's settlement payments as spent, and the first coin state of its answer has
  the spent height \<open>h\<close>. Then the stored trade gets the status \<open>CONFIRMED\<close> and the
  confirmation height \<open>h\<close>, also when the derivation of the transaction records of the
  offer raises afterwards; in that case the exception goes to the caller and no
  transaction record is added. When the derivation returns, its records are added,
  marked confirmed at \<open>h\<close>, only if the trade was \<open>PENDING_ACCEPT\<close>; for every other
  status no transaction record is added or changed.
\<close>

theorem farmed_confirms:
  assumes found: "get_trade_by_coin s (cs_coin cst) = Some t"
      and spent: "\<exists>cs\<in>set (get_coin_state e (our_settlement_ids e (tr_offer t)) fh).
                    coin_name e (cs_coin cs) \<in> set (our_settlement_ids e (tr_offer t))
                    \<and> spent_height cs \<noteq> None"
      and first: "spent_height (hd (get_coin_state e (our_settlement_ids e (tr_offer t)) fh))
                    = Some h"
  shows "\<exists>res s' r. coins_of_interest_farmed e now s cst fh = (res, s')
           \<and> get_trade_record s' (trade_id t) = Some r
           \<and> status r = CONFIRMED \<and> confirmed_at_index r = h
           \<and> pending_transactions s' = pending_transactions s
           \<and> (case calculate_tx_records_for_offer e (reg s) now (tr_offer t) False of
                 Inl err \<Rightarrow> res = Some err \<and> transactions s' = transactions s
               | Inr txs \<Rightarrow>
                   res = None
                   \<and> transactions s' = transactions s @
                        (if status t = PENDING_ACCEPT then map (confirm_tx h) txs else []))"
proof -
  have known: "set (our_settlement_ids e (tr_offer t))
                    \<inter> set (map (\<lambda>cs. coin_name e (cs_coin cs))
                              (get_coin_state e (our_settlement_ids e (tr_offer t)) fh)) \<noteq> {}"
    using spent by auto
  have mem: "\<exists>x\<in>set (trades s). trade_id x = trade_id t"
    using get_trade_by_coin_SomeD[OF found] by blast
  from confirmed_stored[OF mem, of e h] obtain r where
    r: "get_trade_record (set_status_at e s (trade_id t) CONFIRMED h) (trade_id t) = Some r"
       "status r = CONFIRMED" "confirmed_at_index r = h"
    by blast
  have other: "pending_transactions (set_status_at e s (trade_id t) CONFIRMED h)
                 = pending_transactions s"
              "transactions (set_status_at e s (trade_id t) CONFIRMED h) = transactions s"
    by (simp_all add: set_status_at_def)
  show ?thesis
  proof (cases "calculate_tx_records_for_offer e (reg s) now (tr_offer t) False")
    case (Inl err)
    then show ?thesis
      using farmed_confirm_branch[OF found known first, of now] r other by simp
  next
    case (Inr txs)
    then show ?thesis
      using farmed_confirm_branch[OF found known first, of now] r other
      by (simp add: get_trade_record_def)
  qed
qed

theorem farmed_confirms_witness:
  "get_trade_by_coin (ex_state PENDING_ACCEPT) (cs_coin (spent_at c_theirs 7))
     = Some (ex_trade PENDING_ACCEPT)
   \<and> (\<exists>s' r. coins_of_interest_farmed (ex_env [spent_at s_ours 7]) 0 (ex_state PENDING_ACCEPT)
                (spent_at c_theirs 7) None = (None, s')
           \<and> get_trade_record s' 9 = Some r \<and> status r = CONFIRMED
           \<and> confirmed_at_index r = 7
           \<and> map confirmed (transactions s') = [True, True]
           \<and> map confirmed_at_height (transactions s') = [7, 7])"
proof -
  let ?e = "ex_env [spent_at s_ours 7]"
  let ?txs = "[incoming_trade_tx ?e 0 ex_offer (offer_bundle ex_offer) 1 31 c_received,
     outgoing_trade_tx ?e 0 ex_offer (offer_bundle ex_offer) 1 100 0 [] [c_ours]]"
  have found: "get_trade_by_coin (ex_state PENDING_ACCEPT) (cs_coin (spent_at c_theirs 7))
     = Some (ex_trade PENDING_ACCEPT)"
    by code_simp
  have spent: "\<exists>cs\<in>set (get_coin_state ?e (our_settlement_ids ?e (tr_offer (ex_trade PENDING_ACCEPT))) None).
                    coin_name ?e (cs_coin cs) \<in> set (our_settlement_ids ?e (tr_offer (ex_trade PENDING_ACCEPT)))
                    \<and> spent_height cs \<noteq> None"
    by code_simp
  have first: "spent_height (hd (get_coin_state ?e (our_settlement_ids ?e (tr_offer (ex_trade PENDING_ACCEPT))) None)) = Some 7"
    by code_simp
  have txs: "calculate_tx_records_for_offer ?e (reg (ex_state PENDING_ACCEPT)) 0
           (tr_offer (ex_trade PENDING_ACCEPT)) False = Inr ?txs"
    by code_simp
  have st: "status (ex_trade PENDING_ACCEPT) = PENDING_ACCEPT" "trade_id (ex_trade PENDING_ACCEPT) = 9"
    "transactions (ex_state PENDING_ACCEPT) = []"
    by (simp_all add: ex_trade_def ex_state_def)
  show ?thesis
    using farmed_confirms[OF found spent first, of 0] found
    unfolding txs st
    by (auto simp: confirm_tx_def)
qed

text \<open>
  Claim C1 as stated fails for a trade in \<open>PENDING_CONFIRM\<close>: the trade is confirmed,
  its pending transaction record stays as it was, unconfirmed, and none of the records
  derived from the offer is added.
\<close>

theorem farmed_confirms_counterexample:
  "get_trade_by_coin ((ex_state PENDING_CONFIRM)\<lparr>transactions := [ex_trade_tx]\<rparr>)
       (cs_coin (spent_at c_theirs 7)) = Some (ex_trade PENDING_CONFIRM)
   \<and> trade_pending (trade_id (ex_trade PENDING_CONFIRM)) ex_trade_tx
   \<and> calculate_tx_records_for_offer (ex_env [spent_at s_ours 7]) ex_reg 0 ex_offer False \<noteq> Inr []
   \<and> fst (coins_of_interest_farmed (ex_env [spent_at s_ours 7]) 0
            ((ex_state PENDING_CONFIRM)\<lparr>transactions := [ex_trade_tx]\<rparr>)
            (spent_at c_theirs 7) None) = None
   \<and> map status (trades (snd (coins_of_interest_farmed (ex_env [spent_at s_ours 7]) 0
           ((ex_state PENDING_CONFIRM)\<lparr>transactions := [ex_trade_tx]\<rparr>)
           (spent_at c_theirs 7) None))) = [CONFIRMED]
   \<and> transactions (snd (coins_of_interest_farmed (ex_env [spent_at s_ours 7]) 0
           ((ex_state PENDING_CONFIRM)\<lparr>transactions := [ex_trade_tx]\<rparr>)
           (spent_at c_theirs 7) None)) = [ex_trade_tx]"
  by code_simp

text \<open>
  Claim C2, as amended. The event is for a spent coin of the trade \<open>t\<close> and the node
  returns no coin state for any of this side's settlement payments: that, and not
  whether one of them is spent, is what line 154 tests. Then the pending transactions of
  the trade are gone from both stores, \<open>PENDING_CANCEL\<close> becomes \<open>CANCELLED\<close>,
  \<open>PENDING_CONFIRM\<close> becomes \<open>FAILED\<close> (not \<open>CONFIRMED\<close>) and a
  \<open>PENDING_ACCEPT\<close> trade is left as it was.
\<close>

theorem farmed_fails:
  assumes found: "get_trade_by_coin s (cs_coin cst) = Some t"
      and event: "spent_height cst \<noteq> None"
      and none_known:
        "\<not> (\<exists>cs\<in>set (get_coin_state e (our_settlement_ids e (tr_offer t)) fh).
              coin_name e (cs_coin cs) \<in> set (our_settlement_ids e (tr_offer t)))"
  shows "\<exists>s'. coins_of_interest_farmed e now s cst fh = (None, s')
           \<and> filter (trade_pending (trade_id t)) (transactions s') = []
           \<and> filter (trade_pending (trade_id t)) (pending_transactions s') = []
           \<and> (status t = PENDING_CANCEL \<longrightarrow>
                trades s' = trades (set_status e s (trade_id t) CANCELLED)
                \<and> (\<exists>r. get_trade_record s' (trade_id t) = Some r \<and> status r = CANCELLED))
           \<and> (status t = PENDING_CONFIRM \<longrightarrow>
                trades s' = trades (set_status e s (trade_id t) FAILED)
                \<and> (\<exists>r. get_trade_record s' (trade_id t) = Some r \<and> status r = FAILED))
           \<and> (status t = PENDING_ACCEPT \<longrightarrow> trades s' = trades s)"
proof -
  let ?ids = "our_settlement_ids e (tr_offer t)"
  let ?states = "get_coin_state e ?ids fh"
  have empty: "set ?ids \<inter> set (map (\<lambda>cs. coin_name e (cs_coin cs)) ?states) = {}"
    using none_known by auto
  have mem: "\<exists>x\<in>set (trades s). trade_id x = trade_id t"
    using get_trade_by_coin_SomeD[OF found] by blast
  have upd: "\<exists>y. find (\<lambda>x. trade_id x = trade_id t)
        (listing e (trade_id t)
           (map (\<lambda>x. if trade_id x = trade_id t then x\<lparr>status := st\<rparr> else x) (trades s))) = Some y
        \<and> status y = st" for st
    using stored_after_write[of "\<lambda>x. x\<lparr>status := st\<rparr>" "trades s" "trade_id t" e, OF _ mem]
    by auto
  show ?thesis
  proof (cases "status t = PENDING_CANCEL")
    case True
    then show ?thesis
      using empty upd[of CANCELLED]
      by (simp add: coins_of_interest_farmed_def found Let_def set_status_def
            delete_trade_transactions_def get_trade_record_def)
  next
    case False
    show ?thesis
    proof (cases "status t = PENDING_CONFIRM")
      case True
      then show ?thesis
        using empty upd[of FAILED]
        by (simp add: coins_of_interest_farmed_def found Let_def set_status_def
              delete_trade_transactions_def get_trade_record_def)
    next
      case other: False
      from False other show ?thesis
        using empty
        by (simp add: coins_of_interest_farmed_def found Let_def set_status_def
              delete_trade_transactions_def get_trade_record_def)
    qed
  qed
qed

theorem farmed_fails_witness:
  "get_trade_by_coin (ex_state PENDING_CONFIRM) (cs_coin (spent_at c_theirs 7))
     = Some (ex_trade PENDING_CONFIRM)
   \<and> spent_height (spent_at c_theirs 7) \<noteq> None
   \<and> (\<exists>s' r. coins_of_interest_farmed (ex_env [spent_at s_theirs 7]) 0 (ex_state PENDING_CONFIRM)
                 (spent_at c_theirs 7) None = (None, s')
            \<and> get_trade_record s' 9 = Some r \<and> status r = FAILED)"
proof -
  let ?e = "ex_env [spent_at s_theirs 7]"
  let ?t = "ex_trade PENDING_CONFIRM"
  have found: "get_trade_by_coin (ex_state PENDING_CONFIRM) (cs_coin (spent_at c_theirs 7)) = Some ?t"
    by code_simp
  have event: "spent_height (spent_at c_theirs 7) \<noteq> None"
    by code_simp
  have none_known: "\<not> (\<exists>cs\<in>set (get_coin_state ?e (our_settlement_ids ?e (tr_offer ?t)) None).
                    coin_name ?e (cs_coin cs) \<in> set (our_settlement_ids ?e (tr_offer ?t)))"
    by code_simp
  have st: "status ?t = PENDING_CONFIRM" "trade_id ?t = 9"
    by (simp_all add: ex_trade_def)
  show ?thesis
    using farmed_fails[OF found event none_known, of 0] found event
    unfolding st by auto
qed

text \<open>
  Claim C2 as stated fails when the node knows one of this side's settlement payments and
  reports it unspent: none of them has been spent, yet the branch of line 154 is taken,
  so the trade in \<open>PENDING_CONFIRM\<close> does not become \<open>FAILED\<close> and its pending
  transaction is not deleted.
\<close>

theorem farmed_fails_counterexample:
  "get_trade_by_coin ((ex_state PENDING_CONFIRM)\<lparr>transactions := [ex_trade_tx]\<rparr>)
       (cs_coin (spent_at c_theirs 7)) = Some (ex_trade PENDING_CONFIRM)
   \<and> spent_height (spent_at c_theirs 7) \<noteq> None
   \<and> our_settlement_ids (ex_env [unspent s_ours]) ex_offer = [121]
   \<and> get_coin_state (ex_env [unspent s_ours]) [121] None = [unspent s_ours]
   \<and> spent_height (unspent s_ours) = None
   \<and> map status (trades (snd (coins_of_interest_farmed (ex_env [unspent s_ours]) 0
           ((ex_state PENDING_CONFIRM)\<lparr>transactions := [ex_trade_tx]\<rparr>)
           (spent_at c_theirs 7) None))) = [PENDING_CONFIRM]
   \<and> transactions (snd (coins_of_interest_farmed (ex_env [unspent s_ours]) 0
           ((ex_state PENDING_CONFIRM)\<lparr>transactions := [ex_trade_tx]\<rparr>)
           (spent_at c_theirs 7) None)) = [ex_trade_tx]
   \<and> fst (coins_of_interest_farmed (ex_env [unspent s_ours]) 0
           ((ex_state PENDING_CONFIRM)\<lparr>transactions := [ex_trade_tx]\<rparr>)
           (spent_at c_theirs 7) None) = Some TypeError"
  by code_simp

text \<open>Whether the derivation of the transaction records raises does not depend on the clock.\<close>

lemma additions_loop_now:
  "map_sum id snd (additions_loop e r now offer fsb sids adds txs ad) =
   map_sum id snd (additions_loop e r now' offer fsb sids adds txs' ad)"
  by (induction adds arbitrary: txs txs' ad) (auto split: option.splits)

lemma removals_loop_now:
  "raised (removals_loop e r now offer fsb fees ad rd txs) =
   raised (removals_loop e r now' offer fsb fees ad rd txs')"
proof (induction rd arbitrary: txs txs')
  case Nil
  show ?case by (simp add: raised_def)
next
  case (Cons p rd)
  obtain wid g where p: "p = (wid, g)" by (cases p)
  show ?case
  proof (cases "wallets r wid")
    case None
    then show ?thesis by (simp add: p raised_def)
  next
    case (Some w)
    show ?thesis
    proof (cases "uint64 (int (sum_list (map amount g))
                    - int (sum_list (map amount (case map_of ad wid of Some cs \<Rightarrow> cs | None \<Rightarrow> []))))")
      case (Inl err)
      with Some show ?thesis by (simp add: p Let_def raised_def)
    next
      case (Inr amt)
      with Some show ?thesis by (simp add: p Let_def, intro Cons.IH)
    qed
  qed
qed

lemma calculate_tx_records_raises:
  "raised (calculate_tx_records_for_offer e r now offer v) =
   raised (calculate_tx_records_for_offer e r now' offer v)"
proof -
  let ?fsb = "if v then to_valid_spend e offer else offer_bundle offer"
  let ?sids = "map (coin_name e) (concat (map snd (get_offered_coins e offer)))"
  let ?A = "additions_loop e r now offer ?fsb ?sids (sb_not_ephemeral_additions ?fsb) [] []"
  let ?B = "additions_loop e r now' offer ?fsb ?sids (sb_not_ephemeral_additions ?fsb) [] []"
  have same: "map_sum id snd ?A = map_sum id snd ?B"
    by (rule additions_loop_now)
  show ?thesis
  proof (cases "uint64 (sb_fees ?fsb)")
    case (Inl err)
    then show ?thesis by (simp add: calculate_tx_records_for_offer_def Let_def)
  next
    case (Inr fees)
    show ?thesis
    proof (cases ?A)
      case a: (Inl err)
      with same have b: "?B = Inl err" by (cases ?B) auto
      from a b Inr show ?thesis by (simp add: calculate_tx_records_for_offer_def Let_def)
    next
      case a: (Inr p)
      with same obtain q where b: "?B = Inr q" and pq: "snd p = snd q" by (cases ?B) auto
      obtain t1 ad1 where p: "p = (t1, ad1)" by (cases p)
      obtain t2 where q: "q = (t2, ad1)" using pq p by (cases q) auto
      from a b Inr p q show ?thesis
        using removals_loop_now[of e r now offer ?fsb fees ad1 _ t1 now' t2]
        by (simp add: calculate_tx_records_for_offer_def Let_def)
    qed
  qed
qed

lemma farmed_confirm_result:
  assumes found: "get_trade_by_coin s (cs_coin cst) = Some t"
      and known: "set (our_settlement_ids e (tr_offer t))
                    \<inter> set (map (\<lambda>cs. coin_name e (cs_coin cs))
                              (get_coin_state e (our_settlement_ids e (tr_offer t)) fh)) \<noteq> {}"
      and first: "spent_height (hd (get_coin_state e (our_settlement_ids e (tr_offer t)) fh)) = Some h"
  shows "fst (coins_of_interest_farmed e now s cst fh)
           = raised (calculate_tx_records_for_offer e (reg s) now (tr_offer t) False)"
    and "trades (snd (coins_of_interest_farmed e now s cst fh))
           = trades (set_status_at e s (trade_id t) CONFIRMED h)"
    and "reg (snd (coins_of_interest_farmed e now s cst fh)) = reg s"
    and "pending_transactions (snd (coins_of_interest_farmed e now s cst fh))
           = pending_transactions s"
    and "status t \<noteq> PENDING_ACCEPT \<Longrightarrow>
           transactions (snd (coins_of_interest_farmed e now s cst fh)) = transactions s"
proof -
  note branch = farmed_confirm_branch[OF found known first, of now]
  show "fst (coins_of_interest_farmed e now s cst fh)
           = raised (calculate_tx_records_for_offer e (reg s) now (tr_offer t) False)"
    by (cases "calculate_tx_records_for_offer e (reg s) now (tr_offer t) False")
       (simp_all add: branch raised_def)
  show "trades (snd (coins_of_interest_farmed e now s cst fh))
           = trades (set_status_at e s (trade_id t) CONFIRMED h)"
    by (cases "calculate_tx_records_for_offer e (reg s) now (tr_offer t) False")
       (simp_all add: branch)
  show "reg (snd (coins_of_interest_farmed e now s cst fh)) = reg s"
    by (cases "calculate_tx_records_for_offer e (reg s) now (tr_offer t) False")
       (simp_all add: branch set_status_at_def)
  show "pending_transactions (snd (coins_of_interest_farmed e now s cst fh))
           = pending_transactions s"
    by (cases "calculate_tx_records_for_offer e (reg s) now (tr_offer t) False")
       (simp_all add: branch set_status_at_def)
  show "transactions (snd (coins_of_interest_farmed e now s cst fh)) = transactions s"
    if "status t \<noteq> PENDING_ACCEPT"
    using that
    by (cases "calculate_tx_records_for_offer e (reg s) now (tr_offer t) False")
       (simp_all add: branch set_status_at_def)
qed

lemma find_SomeD: "find P xs = Some y \<Longrightarrow> y \<in> set xs \<and> P y"
  by (induction xs) (auto split: if_splits)

lemma find_exists: "y \<in> set xs \<Longrightarrow> P y \<Longrightarrow> \<exists>z. find P xs = Some z"
  by (induction xs) auto

text \<open>
  Claim C9, as amended. The trade \<open>t\<close> is the only record of its trade id and the only
  trade, not cancelled, that lists the coin of the event; the node reports one of this
  side's settlement payments as spent, the first coin state of its answer at height
  \<open>h\<close>. Then a second delivery of the event, at any later time and whatever the order
  in which the store lists its records, ends as the first did: the trade is still
  \<open>CONFIRMED\<close> at \<open>h\<close>, the store holds the same records and no transaction record
  has been added.
\<close>

theorem farmed_idempotent:
  assumes found: "get_trade_by_coin s (cs_coin cst) = Some t"
      and only: "\<forall>x\<in>set (trades s).
                   trade_id x = trade_id t
                   \<or> (status x \<noteq> CANCELLED \<and> cs_coin cst \<in> set (coins_of_interest x))
                   \<longrightarrow> x = t"
      and spent: "\<exists>cs\<in>set (get_coin_state e (our_settlement_ids e (tr_offer t)) fh).
                    coin_name e (cs_coin cs) \<in> set (our_settlement_ids e (tr_offer t))
                    \<and> spent_height cs \<noteq> None"
      and first: "spent_height (hd (get_coin_state e (our_settlement_ids e (tr_offer t)) fh))
                    = Some h"
  shows "\<exists>res s1 s2 r.
           coins_of_interest_farmed e now s cst fh = (res, s1)
           \<and> coins_of_interest_farmed e now' s1 cst fh = (res, s2)
           \<and> get_trade_record s2 (trade_id t) = Some r
           \<and> status r = CONFIRMED \<and> confirmed_at_index r = h
           \<and> transactions s2 = transactions s1
           \<and> pending_transactions s2 = pending_transactions s1
           \<and> set (trades s2) = set (trades s1)"
proof -
  define upd where "upd = (\<lambda>x::trade_record. if trade_id x = trade_id t
                         then x\<lparr>status := CONFIRMED, confirmed_at_index := h\<rparr> else x)"
  define t' where "t' = t\<lparr>status := CONFIRMED, confirmed_at_index := h\<rparr>"
  define P where "P = (\<lambda>x::trade_record. status x \<noteq> CANCELLED \<and> cs_coin cst \<in> set (coins_of_interest x))"
  define s1 where "s1 = snd (coins_of_interest_farmed e now s cst fh)"
  define s2 where "s2 = snd (coins_of_interest_farmed e now' s1 cst fh)"
  have upd_other: "upd x = x" if "trade_id x \<noteq> trade_id t" for x
    using that by (simp add: upd_def)
  have upd_same: "upd x = x\<lparr>status := CONFIRMED, confirmed_at_index := h\<rparr>"
    if "trade_id x = trade_id t" for x
    using that by (simp add: upd_def)
  have upd_idem: "upd (upd x) = upd x" for x
    by (simp add: upd_def)
  have written: "trades (set_status_at e z (trade_id t) CONFIRMED h)
                   = listing e (trade_id t) (map upd (trades z))" for z
    by (simp add: upd_def set_status_at_def)
  have t': "tr_offer t' = tr_offer t" "trade_id t' = trade_id t" "status t' \<noteq> PENDING_ACCEPT"
    "status t' \<noteq> CANCELLED" "coins_of_interest t' = coins_of_interest t" "upd t = t'"
    by (simp_all add: t'_def upd_def)
  have known: "set (our_settlement_ids e (tr_offer t))
                    \<inter> set (map (\<lambda>cs. coin_name e (cs_coin cs))
                              (get_coin_state e (our_settlement_ids e (tr_offer t)) fh)) \<noteq> {}"
    using spent by auto
  note one = farmed_confirm_result[OF found known first, of now, folded s1_def]
  have t_in: "t \<in> set (trades s)" and Pt: "P t"
    using get_trade_by_coin_SomeD[OF found] by (auto simp: P_def)
  have members1: "set (trades s1) = upd ` set (trades s)"
    unfolding one(2) written by (simp add: set_listing)
  have t'_in: "t' \<in> set (trades s1)"
    unfolding members1 using t_in t'(6) by blast
  have P': "P t'"
    using Pt t'(4,5) by (simp add: P_def)
  have unique1: "y = t'" if y: "y \<in> set (trades s1)" and Py: "P y" for y
  proof -
    from y obtain x where x: "x \<in> set (trades s)" "y = upd x"
      unfolding members1 by blast
    show ?thesis
    proof (cases "trade_id x = trade_id t")
      case True
      with only x(1) have "x = t" by blast
      with x(2) t'(6) show ?thesis by simp
    next
      case False
      with x(2) upd_other have "y = x" by simp
      with Py only x(1) have "x = t" unfolding P_def by blast
      with False show ?thesis by simp
    qed
  qed
  from find_exists[OF t'_in, of P, OF P'] obtain y where y: "find P (trades s1) = Some y"
    by blast
  from find_SomeD[OF y] have "y = t'" using unique1 by blast
  with y have found1: "get_trade_by_coin s1 (cs_coin cst) = Some t'"
    by (simp add: get_trade_by_coin_def get_all_trades_def P_def)
  have known1: "set (our_settlement_ids e (tr_offer t'))
                    \<inter> set (map (\<lambda>cs. coin_name e (cs_coin cs))
                              (get_coin_state e (our_settlement_ids e (tr_offer t')) fh)) \<noteq> {}"
    unfolding t'(1) by (rule known)
  have first1: "spent_height (hd (get_coin_state e (our_settlement_ids e (tr_offer t')) fh))
                  = Some h"
    unfolding t'(1) by (rule first)
  note two = farmed_confirm_result[OF found1 known1 first1, of now', folded s2_def,
                                   unfolded t'(1) t'(2)]
  have res: "fst (coins_of_interest_farmed e now' s1 cst fh)
               = fst (coins_of_interest_farmed e now s cst fh)"
    unfolding one(1) two(1) one(3)
    by (rule calculate_tx_records_raises)
  have txs: "transactions s2 = transactions s1"
    by (rule two(5)) (rule t'(3))
  have pend: "pending_transactions s2 = pending_transactions s1"
    by (rule two(4))
  have "upd ` upd ` set (trades s) = upd ` set (trades s)"
    unfolding image_image upd_idem ..
  then have members2: "set (trades s2) = set (trades s1)"
    unfolding two(2) written members1 set_listing set_map members1 .
  have mem1: "\<exists>x\<in>set (trades s1). trade_id x = trade_id t"
    using t'_in t'(2) by blast
  from confirmed_stored[OF mem1, of e h]
  obtain r where r: "get_trade_record s2 (trade_id t) = Some r" "status r = CONFIRMED"
      "confirmed_at_index r = h"
    unfolding get_trade_record_def two(2) by blast
  have run1: "coins_of_interest_farmed e now s cst fh
                = (fst (coins_of_interest_farmed e now s cst fh), s1)"
    unfolding s1_def by simp
  have run2: "coins_of_interest_farmed e now' s1 cst fh
                = (fst (coins_of_interest_farmed e now s cst fh), s2)"
    unfolding s2_def res[symmetric] by simp
  show ?thesis
    apply (rule exI[of _ "fst (coins_of_interest_farmed e now s cst fh)"])
    apply (rule exI[of _ s1])
    apply (rule exI[of _ s2])
    apply (rule exI[of _ r])
    using run1 run2 r txs pend members2 apply blast
    done
qed

theorem farmed_idempotent_witness:
  "get_trade_by_coin (ex_state PENDING_ACCEPT) (cs_coin (spent_at c_theirs 7))
     = Some (ex_trade PENDING_ACCEPT)
   \<and> (\<exists>res s1 s2 r.
         coins_of_interest_farmed (ex_env [spent_at s_ours 7]) 0 (ex_state PENDING_ACCEPT)
           (spent_at c_theirs 7) None = (res, s1)
         \<and> coins_of_interest_farmed (ex_env [spent_at s_ours 7]) 5 s1
             (spent_at c_theirs 7) None = (res, s2)
         \<and> get_trade_record s2 9 = Some r \<and> status r = CONFIRMED \<and> confirmed_at_index r = 7
         \<and> transactions s2 = transactions s1)
   \<and> length (transactions (snd (coins_of_interest_farmed (ex_env [spent_at s_ours 7]) 0
                                   (ex_state PENDING_ACCEPT) (spent_at c_theirs 7) None))) = 2"
proof -
  let ?e = "ex_env [spent_at s_ours 7]"
  let ?t = "ex_trade PENDING_ACCEPT"
  have found: "get_trade_by_coin (ex_state PENDING_ACCEPT) (cs_coin (spent_at c_theirs 7)) = Some ?t"
    by code_simp
  have only: "\<forall>x\<in>set (trades (ex_state PENDING_ACCEPT)).
                   trade_id x = trade_id ?t
                   \<or> (status x \<noteq> CANCELLED
                       \<and> cs_coin (spent_at c_theirs 7) \<in> set (coins_of_interest x))
                   \<longrightarrow> x = ?t"
    by (simp add: ex_state_def)
  have spent: "\<exists>cs\<in>set (get_coin_state ?e (our_settlement_ids ?e (tr_offer ?t)) None).
                    coin_name ?e (cs_coin cs) \<in> set (our_settlement_ids ?e (tr_offer ?t))
                    \<and> spent_height cs \<noteq> None"
    by code_simp
  have first: "spent_height (hd (get_coin_state ?e (our_settlement_ids ?e (tr_offer ?t)) None))
                 = Some 7"
    by code_simp
  have two: "length (transactions (snd (coins_of_interest_farmed ?e 0
                                   (ex_state PENDING_ACCEPT) (spent_at c_theirs 7) None))) = 2"
    by code_simp
  have st: "trade_id ?t = 9"
    by (simp add: ex_trade_def)
  from farmed_idempotent[OF found only spent first, of 0 5]
  obtain res s1 s2 r where
    "coins_of_interest_farmed ?e 0 (ex_state PENDING_ACCEPT) (spent_at c_theirs 7) None = (res, s1)"
    "coins_of_interest_farmed ?e 5 s1 (spent_at c_theirs 7) None = (res, s2)"
    "get_trade_record s2 9 = Some r" "status r = CONFIRMED" "confirmed_at_index r = 7"
    "transactions s2 = transactions s1"
    unfolding st by blast
  with found two show ?thesis by blast
qed

text \<open>
  Claim C9 as stated fails when two trades list the coin and the store lists the record it
  has just written last: the first delivery confirms trade 9 and adds two transaction
  records, the second delivery finds trade 10, confirms it and adds two more.
\<close>

theorem farmed_idempotent_counterexample:
  "map (\<lambda>t. (trade_id t, status t)) (trades ex_two_trades)
     = [(9, PENDING_ACCEPT), (10, PENDING_ACCEPT)]
   \<and> transactions ex_two_trades = []
   \<and> map (\<lambda>t. (trade_id t, status t))
       (trades (snd (coins_of_interest_farmed
                       ((ex_env [spent_at s_ours 7])\<lparr>store_order := written_last\<rparr>) 0
                       ex_two_trades (spent_at c_theirs 7) None)))
     = [(10, PENDING_ACCEPT), (9, CONFIRMED)]
   \<and> length (transactions (snd (coins_of_interest_farmed
                       ((ex_env [spent_at s_ours 7])\<lparr>store_order := written_last\<rparr>) 0
                       ex_two_trades (spent_at c_theirs 7) None))) = 2
   \<and> map (\<lambda>t. (trade_id t, status t))
       (trades (snd (coins_of_interest_farmed
                       ((ex_env [spent_at s_ours 7])\<lparr>store_order := written_last\<rparr>) 0
                       (snd (coins_of_interest_farmed
                               ((ex_env [spent_at s_ours 7])\<lparr>store_order := written_last\<rparr>) 0
                               ex_two_trades (spent_at c_theirs 7) None))
                       (spent_at c_theirs 7) None)))
     = [(9, CONFIRMED), (10, CONFIRMED)]
   \<and> length (transactions (snd (coins_of_interest_farmed
                       ((ex_env [spent_at s_ours 7])\<lparr>store_order := written_last\<rparr>) 0
                       (snd (coins_of_interest_farmed
                               ((ex_env [spent_at s_ours 7])\<lparr>store_order := written_last\<rparr>) 0
                               ex_two_trades (spent_at c_theirs 7) None))
                       (spent_at c_theirs 7) None))) = 4"
  by code_simp

section \<open>Validity of an offer\<close>

text \<open>
  Claim C4, as amended. The node answers the query for the non-ephemeral removals of the
  bundle with at most one state per coin and only for coins that were asked. For a bundle
  that lists no non-ephemeral removal twice, \<open>check_offer_validity\<close> is true exactly
  when every non-ephemeral removal has a state in the answer that is unspent. So it is
  false as soon as one of them is unknown to the node or spent.
\<close>

theorem check_offer_validity_iff:
  assumes removals_distinct: "distinct (map (coin_name e) (non_ephemeral_removals e offer))"
      and answer_distinct:
        "distinct (map (\<lambda>cs. coin_name e (cs_coin cs)) (queried_states e offer))"
      and answer_asked:
        "set (map (\<lambda>cs. coin_name e (cs_coin cs)) (queried_states e offer))
           \<subseteq> set (map (coin_name e) (non_ephemeral_removals e offer))"
  shows "check_offer_validity e offer \<longleftrightarrow>
           (\<forall>c\<in>set (non_ephemeral_removals e offer).
              \<exists>cs\<in>set (queried_states e offer).
                coin_name e (cs_coin cs) = coin_name e c \<and> spent_height cs = None)"
proof
  let ?N = "map (coin_name e) (non_ephemeral_removals e offer)"
  let ?S = "map (\<lambda>cs. coin_name e (cs_coin cs)) (queried_states e offer)"
  assume valid: "check_offer_validity e offer"
  then have len: "length ?S = length ?N"
    and unspent: "\<forall>cs\<in>set (queried_states e offer). spent_height cs = None"
    by (simp_all add: check_offer_validity_def Let_def list_all_iff)
  have "card (set ?S) = card (set ?N)"
    using len distinct_card[OF removals_distinct] distinct_card[OF answer_distinct] by simp
  with answer_asked have eq: "set ?S = set ?N"
    by (intro card_subset_eq) auto
  show "\<forall>c\<in>set (non_ephemeral_removals e offer).
              \<exists>cs\<in>set (queried_states e offer).
                coin_name e (cs_coin cs) = coin_name e c \<and> spent_height cs = None"
  proof
    fix c assume "c \<in> set (non_ephemeral_removals e offer)"
    then have "coin_name e c \<in> set ?S" using eq by simp
    then obtain cs where "cs \<in> set (queried_states e offer)"
        and "coin_name e (cs_coin cs) = coin_name e c" by auto
    with unspent show "\<exists>cs\<in>set (queried_states e offer).
                coin_name e (cs_coin cs) = coin_name e c \<and> spent_height cs = None"
      by blast
  qed
next
  let ?N = "map (coin_name e) (non_ephemeral_removals e offer)"
  let ?S = "map (\<lambda>cs. coin_name e (cs_coin cs)) (queried_states e offer)"
  assume known: "\<forall>c\<in>set (non_ephemeral_removals e offer).
              \<exists>cs\<in>set (queried_states e offer).
                coin_name e (cs_coin cs) = coin_name e c \<and> spent_height cs = None"
  then have "set ?N \<subseteq> set ?S" by force
  with answer_asked have eq: "set ?S = set ?N" by blast
  have len: "length (queried_states e offer) = length (non_ephemeral_removals e offer)"
    using distinct_card[OF removals_distinct] distinct_card[OF answer_distinct] eq by simp
  have inj: "inj_on (\<lambda>cs. coin_name e (cs_coin cs)) (set (queried_states e offer))"
    using answer_distinct by (simp add: distinct_map)
  have "spent_height cs = None" if cs: "cs \<in> set (queried_states e offer)" for cs
  proof -
    from cs have "coin_name e (cs_coin cs) \<in> set ?N" using eq by auto
    then obtain c where c: "c \<in> set (non_ephemeral_removals e offer)"
        and n: "coin_name e c = coin_name e (cs_coin cs)" by auto
    from known c obtain cs' where cs': "cs' \<in> set (queried_states e offer)"
        and n': "coin_name e (cs_coin cs') = coin_name e c" and u: "spent_height cs' = None"
      by blast
    from inj cs cs' n n' have "cs' = cs" by (auto dest: inj_onD)
    with u show ?thesis by simp
  qed
  with len show "check_offer_validity e offer"
    by (simp add: check_offer_validity_def Let_def list_all_iff)
qed

theorem check_offer_validity_iff_witness:
  "distinct (map (coin_name (ex_env [unspent c_ours]))
               (non_ephemeral_removals (ex_env [unspent c_ours]) ex_offer))
   \<and> distinct (map (\<lambda>cs. coin_name (ex_env [unspent c_ours]) (cs_coin cs))
                 (queried_states (ex_env [unspent c_ours]) ex_offer))
   \<and> non_ephemeral_removals (ex_env [unspent c_ours]) ex_offer = [c_ours]
   \<and> check_offer_validity (ex_env [unspent c_ours]) ex_offer
   \<and> (\<exists>cs\<in>set (queried_states (ex_env [unspent c_ours]) ex_offer).
         coin_name (ex_env [unspent c_ours]) (cs_coin cs)
           = coin_name (ex_env [unspent c_ours]) c_ours
         \<and> spent_height cs = None)"
proof -
  let ?e = "ex_env [unspent c_ours]"
  have d1: "distinct (map (coin_name ?e) (non_ephemeral_removals ?e ex_offer))"
    by code_simp
  have d2: "distinct (map (\<lambda>cs. coin_name ?e (cs_coin cs)) (queried_states ?e ex_offer))"
    by code_simp
  have sub: "set (map (\<lambda>cs. coin_name ?e (cs_coin cs)) (queried_states ?e ex_offer))
        \<subseteq> set (map (coin_name ?e) (non_ephemeral_removals ?e ex_offer))"
    by code_simp
  have ne: "non_ephemeral_removals ?e ex_offer = [c_ours]"
    by code_simp
  have valid: "check_offer_validity ?e ex_offer"
    by code_simp
  from check_offer_validity_iff[OF d1 d2 sub] valid
  have "\<forall>c\<in>set (non_ephemeral_removals ?e ex_offer).
          \<exists>cs\<in>set (queried_states ?e ex_offer).
            coin_name ?e (cs_coin cs) = coin_name ?e c \<and> spent_height cs = None"
    by blast
  then have "\<exists>cs\<in>set (queried_states ?e ex_offer).
            coin_name ?e (cs_coin cs) = coin_name ?e c_ours \<and> spent_height cs = None"
    unfolding ne by simp
  with d1 d2 ne valid show ?thesis by blast
qed

text \<open>
  Claim C4 as stated fails for a bundle that lists a coin twice: the coin is known and
  unspent, the node answers with its one state, and the test of the lengths on line 447
  makes the result false.
\<close>

theorem check_offer_validity_counterexample:
  "non_ephemeral_removals (ex_env [unspent c_ours]) ex_offer_twice = [c_ours, c_ours]
   \<and> queried_states (ex_env [unspent c_ours]) ex_offer_twice = [unspent c_ours]
   \<and> coin_name (ex_env [unspent c_ours]) (cs_coin (unspent c_ours))
       = coin_name (ex_env [unspent c_ours]) c_ours
   \<and> spent_height (unspent c_ours) = None
   \<and> \<not> check_offer_validity (ex_env [unspent c_ours]) ex_offer_twice"
  by code_simp

section \<open>Construction of an offer\<close>

lemma queried_keys_append: "queried_keys (xs @ ys) = queried_keys xs @ queried_keys ys"
  by (induction xs rule: queried_keys.induct) auto

lemma reconcile_driver_io: "b_io (snd (reconcile_driver b a w)) = b_io b"
  by (auto simp: reconcile_driver_def split: option.splits)

lemma request_payment_io: "b_io (snd (request_payment b a w ph v ms)) = b_io b"
  by (auto simp: request_payment_def reconcile_driver_io split: sum.splits)

lemma requested_entry_calls:
  "calls (b_io (snd (requested_entry r b k v))) = calls (b_io b)"
  by (auto simp: requested_entry_def request_payment_io derive_ph_def Let_def
           split: offer_key.splits sum.splits option.splits)

lemma select_offer_queried:
  "set (queried_keys (calls (b_io (snd (select_offer b k a w v)))))
     \<subseteq> set (queried_keys (calls (b_io b))) \<union> (if v \<noteq> 0 then {k} else {})"
  by (auto simp: select_offer_def reconcile_driver_io log_call_def Let_def queried_keys_append
           split: sum.splits option.splits)

lemma offered_entry_cases:
  "(\<exists>err. offered_entry r b k v = (Some err, b))
   \<or> (\<exists>a w. offered_entry r b k v = select_offer b k a w v)"
  by (auto simp: offered_entry_def split: offer_key.splits sum.splits option.splits)

lemma offered_entry_queried:
  "set (queried_keys (calls (b_io (snd (offered_entry r b k v)))))
     \<subseteq> set (queried_keys (calls (b_io b))) \<union> (if v \<noteq> 0 then {k} else {})"
  using offered_entry_cases[of r b k v] select_offer_queried[of b k _ _ v]
  by (elim disjE exE) simp_all

lemma offered_entry_zero: "\<exists>err. offered_entry r b k 0 = (Some err, b)"
  by (auto simp: offered_entry_def select_offer_def split: offer_key.splits sum.splits option.splits)

lemma entry_queried:
  "set (queried_keys (calls (b_io (snd (if v > 0 then requested_entry r b k v
                                          else offered_entry r b k v)))))
     \<subseteq> set (queried_keys (calls (b_io b))) \<union> (if v < 0 then {k} else {})"
proof (cases "v > 0")
  case True
  then show ?thesis by (simp add: requested_entry_calls)
next
  case False
  then show ?thesis
    using offered_entry_queried[of r b k v] by (auto split: if_splits)
qed

lemma offer_entries_zero:
  "\<exists>err b'. offer_entries r b (pre @ (k, 0) # post) = (Some err, b')
     \<and> set (queried_keys (calls (b_io b')))
          \<subseteq> set (queried_keys (calls (b_io b))) \<union> fst ` {p \<in> set pre. snd p < 0}"
proof (induction pre arbitrary: b)
  case Nil
  then show ?case using offered_entry_zero[of r b k] by auto
next
  case (Cons p pre)
  obtain k' v where p: "p = (k', v)" by (cases p)
  let ?step = "if v > 0 then requested_entry r b k' v else offered_entry r b k' v"
  obtain res b1 where step: "?step = (res, b1)" by (cases ?step)
  have q1: "set (queried_keys (calls (b_io b1)))
         \<subseteq> set (queried_keys (calls (b_io b))) \<union> (if v < 0 then {k'} else {})"
    using entry_queried[of v r b k'] step by simp
  have parts: "fst ` {q \<in> set (p # pre). snd q < 0}
                 = (if v < 0 then {k'} else {}) \<union> fst ` {q \<in> set pre. snd q < 0}"
    by (force simp: p)
  show ?case
  proof (cases res)
    case None
    from Cons.IH[of b1] obtain err b' where
      rest: "offer_entries r b1 (pre @ (k, 0) # post) = (Some err, b')"
      and q2: "set (queried_keys (calls (b_io b')))
          \<subseteq> set (queried_keys (calls (b_io b1))) \<union> fst ` {p \<in> set pre. snd p < 0}"
      by blast
    have "offer_entries r b ((p # pre) @ (k, 0) # post) = (Some err, b')"
      using step None rest by (simp add: p)
    moreover have "set (queried_keys (calls (b_io b')))
          \<subseteq> set (queried_keys (calls (b_io b))) \<union> fst ` {q \<in> set (p # pre). snd q < 0}"
      using q1 q2 unfolding parts by blast
    ultimately show ?thesis by blast
  next
    case (Some err)
    have "offer_entries r b ((p # pre) @ (k, 0) # post) = (Some err, b1)"
      using step Some by (simp add: p)
    moreover have "set (queried_keys (calls (b_io b1)))
          \<subseteq> set (queried_keys (calls (b_io b))) \<union> fst ` {q \<in> set (p # pre). snd q < 0}"
      using q1 unfolding parts by blast
    ultimately show ?thesis by blast
  qed
qed

lemma reconcile_driver_keeps_io: "reconcile_driver b a w = (res, b1) \<Longrightarrow> b_io b1 = b_io b"
  using reconcile_driver_io[of b a w] by simp

lemma select_offer_pass:
  assumes "select_offer b k a w v = (None, b1)"
  shows "queried_keys (calls (b_io b1)) = queried_keys (calls (b_io b)) @ [k] \<and> v < 0 \<or> v > 0"
proof (cases "v = 0")
  case True
  with assms show ?thesis by (simp add: select_offer_def)
next
  case False
  from assms False obtain amt wl sel coins where
    rec: "reconcile_driver
            (b\<lparr>b_io := log_call (GetCoinsToOffer k a amt (fee_left_to_pay b)) (b_io b),
               coins_to_offer := dict_set (coins_to_offer b) k coins,
               fee_left_to_pay := 0, wallet_paying_fee := Some k\<rparr>) a (Some wl) = (None, b1)"
    by (auto simp: select_offer_def Let_def split: sum.splits option.splits)
  from reconcile_driver_keeps_io[OF rec]
  have "queried_keys (calls (b_io b1)) = queried_keys (calls (b_io b)) @ [k]"
    by (simp add: log_call_def queried_keys_append)
  with False show ?thesis by auto
qed

lemma offered_entry_pass:
  assumes "offered_entry r b k v = (None, b1)"
  shows "queried_keys (calls (b_io b1)) = queried_keys (calls (b_io b)) @ [k] \<and> v < 0 \<or> v > 0"
proof -
  from offered_entry_cases[of r b k v] assms
  obtain a w where "select_offer b k a w v = (None, b1)" by auto
  then show ?thesis by (rule select_offer_pass)
qed

lemma offer_entries_pass:
  "offer_entries r b pre = (None, b') \<Longrightarrow>
     queried_keys (calls (b_io b'))
       = queried_keys (calls (b_io b)) @ map fst (filter (\<lambda>p. snd p < 0) pre)"
proof (induction pre arbitrary: b)
  case Nil
  then show ?case by simp
next
  case (Cons p pre)
  obtain k v where p: "p = (k, v)" by (cases p)
  let ?step = "if v > 0 then requested_entry r b k v else offered_entry r b k v"
  obtain res b1 where step: "?step = (res, b1)" by (cases ?step)
  from Cons.prems step have res: "res = None" and rest: "offer_entries r b1 pre = (None, b')"
    by (auto simp: p split: option.splits)
  have here: "queried_keys (calls (b_io b1))
                = queried_keys (calls (b_io b)) @ (if v < 0 then [k] else [])"
  proof (cases "v > 0")
    case True
    with step requested_entry_calls[of r b k v] show ?thesis by simp
  next
    case False
    with step res have "offered_entry r b k v = (None, b1)" by simp
    from offered_entry_pass[OF this] False show ?thesis by auto
  qed
  from Cons.IH[OF rest] here show ?case by (simp add: p)
qed

lemma offer_entries_append:
  "offer_entries r b (xs @ ys) =
     (case offer_entries r b xs of
        (Some err, b') \<Rightarrow> (Some err, b')
      | (None, b') \<Rightarrow> offer_entries r b' ys)"
  by (induction xs arbitrary: b) (auto split: prod.splits option.splits)

lemma inner_shape:
  "(\<exists>co. fst (create_offer_for_ids_inner e r i d dd fee) = (True, Some co, None))
   \<or> (\<exists>err. fst (create_offer_for_ids_inner e r i d dd fee) = (False, None, Some err))"
  by (auto simp: create_offer_for_ids_inner_def Let_def split: prod.splits option.splits sum.splits)

text \<open>
  Claim C3. The claim holds of the source when one asset is offered. With two offered
  assets and a fee of 3 the first loop passes the fee to the coin selection of the first
  asset, and the second loop attaches the fee to the transactions of the last one:
  \<^verbatim>\<open>wallet_paying_fee\<close> is assigned at every offered entry, not only at the one
  that was given the fee. The run below is the code at that input.
\<close>

theorem fee_attribution_two_offered:
  "fst (create_offer_for_ids_inner (ex_env []) ex_reg \<lparr>ph_index = 0, calls = []\<rparr>
          [(WalletId 1, - 10), (WalletId 2, - 5)] [] 3)
     = (True,
        Some \<lparr>requested_payments = [],
              offer_bundle = \<lparr>sb_name = 7, sb_removals = [], sb_not_ephemeral_additions = [],
                              sb_fees = 0\<rparr>,
              driver_dict = [(5, 77)]\<rparr>,
        None)
   \<and> calls (snd (snd (create_offer_for_ids_inner (ex_env []) ex_reg \<lparr>ph_index = 0, calls = []\<rparr>
                         [(WalletId 1, - 10), (WalletId 2, - 5)] [] 3)))
     = [GetCoinsToOffer (WalletId 1) None 10 3,
        GetCoinsToOffer (WalletId 2) (Some 5) 5 0,
        CreateOfferTransactions (WalletId 1) 10 [c_ours] [] 0,
        CreateOfferTransactions (WalletId 2) 5 [c_theirs] [] 3]"
  by code_simp

text \<open>
  Claim C6, as amended. \<open>_create_offer_for_ids\<close> never raises: every failure of the
  construction is the result \<open>(False, None, error)\<close>. \<open>create_offer_for_ids\<close>
  turns that result into a raised exception, ``Error creating offer'', and leaves the
  trade store, the transaction stores and the wallet registry as they were.
\<close>

theorem construction_failure_raises:
  assumes failed:
    "fst (fst (create_offer_for_ids_inner e (reg s) (io s) d
                 (case dd of None \<Rightarrow> [] | Some x \<Rightarrow> x) fee)) = False"
  shows "\<exists>err s'.
           fst (create_offer_for_ids_inner e (reg s) (io s) d
                  (case dd of None \<Rightarrow> [] | Some x \<Rightarrow> x) fee) = (False, None, Some err)
           \<and> create_offer_for_ids e now s d dd fee validate_only
               = (Inl (ErrorCreatingOffer (Some err)), s')
           \<and> trades s' = trades s \<and> transactions s' = transactions s
           \<and> pending_transactions s' = pending_transactions s \<and> reg s' = reg s"
proof -
  let ?res = "create_offer_for_ids_inner e (reg s) (io s) d
                (case dd of None \<Rightarrow> [] | Some x \<Rightarrow> x) fee"
  from inner_shape[of e "reg s" "io s" d "case dd of None \<Rightarrow> [] | Some x \<Rightarrow> x" fee] failed
  obtain err where res: "fst ?res = (False, None, Some err)"
    by auto
  then have "create_offer_for_ids e now s d dd fee validate_only
               = (Inl (ErrorCreatingOffer (Some err)), s\<lparr>io := snd (snd ?res)\<rparr>)"
    by (simp add: create_offer_for_ids_def Let_def)
  with res show ?thesis by simp
qed

theorem construction_failure_raises_witness:
  "fst (fst (create_offer_for_ids_inner (ex_env []) (reg (ex_state PENDING_ACCEPT))
               (io (ex_state PENDING_ACCEPT)) [(AssetId 6, - 4)]
               (case None of None \<Rightarrow> [] | Some x \<Rightarrow> x) 0)) = False
   \<and> (\<exists>err. fst (create_offer_for_ids (ex_env []) 0 (ex_state PENDING_ACCEPT)
                    [(AssetId 6, - 4)] None 0 False) = Inl (ErrorCreatingOffer (Some err)))
   \<and> trades (snd (create_offer_for_ids (ex_env []) 0 (ex_state PENDING_ACCEPT)
                    [(AssetId 6, - 4)] None 0 False)) = trades (ex_state PENDING_ACCEPT)"
proof -
  have failed: "fst (fst (create_offer_for_ids_inner (ex_env []) (reg (ex_state PENDING_ACCEPT))
               (io (ex_state PENDING_ACCEPT)) [(AssetId 6, - 4)]
               (case None of None \<Rightarrow> [] | Some x \<Rightarrow> x) 0)) = False"
    by code_simp
  from construction_failure_raises[OF failed, of 0 False] failed show ?thesis
    by force
qed

text \<open>
  Claim C6 as stated fails: for an offer of amount 0 the construction reports
  \<open>ZeroAmount\<close> as a result, and \<open>create_offer_for_ids\<close> raises.
\<close>

theorem construction_failure_counterexample:
  "fst (create_offer_for_ids_inner (ex_env []) ex_reg \<lparr>ph_index = 0, calls = []\<rparr>
          [(WalletId 1, 0)] [] 0) = (False, None, Some ZeroAmount)
   \<and> fst (create_offer_for_ids (ex_env []) 0 (ex_state PENDING_ACCEPT) [(WalletId 1, 0)]
            None 0 False) = Inl (ErrorCreatingOffer (Some ZeroAmount))"
  by code_simp

text \<open>
  Claim C8, as amended. When the offer dictionary has an entry of amount 0,
  \<open>create_offer_for_ids\<close> fails (it raises) and stores no trade. No coin is selected
  for that entry or for any later entry: the only entries whose coins can have been
  selected are entries of negative amount that come before it in the order of the
  dictionary. When the entries before it pass the first loop without an exception, the
  coins of exactly those entries have been selected, in their order.
\<close>

theorem zero_amount_fails:
  "\<exists>err s'. create_offer_for_ids e now s (pre @ (k, 0) # post) dd fee validate_only
               = (Inl (ErrorCreatingOffer (Some err)), s')
     \<and> trades s' = trades s
     \<and> set (queried_keys (calls (io s')))
          \<subseteq> set (queried_keys (calls (io s))) \<union> fst ` {p \<in> set pre. snd p < 0}
     \<and> (entries_pass (reg s) (io s) (case dd of None \<Rightarrow> [] | Some x \<Rightarrow> x) fee pre \<longrightarrow>
          queried_keys (calls (io s'))
            = queried_keys (calls (io s)) @ map fst (filter (\<lambda>p. snd p < 0) pre))"
proof -
  let ?dd = "case dd of None \<Rightarrow> [] | Some x \<Rightarrow> x"
  let ?b = "\<lparr>coins_to_offer = [], b_requested_payments = [], fee_left_to_pay = fee,
             wallet_paying_fee = None, b_driver_dict = ?dd, b_io = io s\<rparr>"
  from offer_entries_zero[of "reg s" ?b pre k post]
  obtain err b' where run: "offer_entries (reg s) ?b (pre @ (k, 0) # post) = (Some err, b')"
    and q: "set (queried_keys (calls (b_io b')))
          \<subseteq> set (queried_keys (calls (io s))) \<union> fst ` {p \<in> set pre. snd p < 0}"
    by auto
  have inner: "create_offer_for_ids_inner e (reg s) (io s) (pre @ (k, 0) # post) ?dd fee
                 = ((False, None, Some err), b_driver_dict b', b_io b')"
    using run by (simp add: create_offer_for_ids_inner_def)
  have outer: "create_offer_for_ids e now s (pre @ (k, 0) # post) dd fee validate_only
               = (Inl (ErrorCreatingOffer (Some err)), s\<lparr>io := b_io b'\<rparr>)"
    by (simp add: create_offer_for_ids_def inner Let_def)
  have exact: "queried_keys (calls (b_io b'))
            = queried_keys (calls (io s)) @ map fst (filter (\<lambda>p. snd p < 0) pre)"
    if pass: "entries_pass (reg s) (io s) ?dd fee pre"
  proof -
    from pass obtain b1 where pre: "offer_entries (reg s) ?b pre = (None, b1)"
      by (cases "offer_entries (reg s) ?b pre") (auto simp: entries_pass_def)
    from offered_entry_zero[of "reg s" b1 k] obtain err1 where
      zero: "offered_entry (reg s) b1 k 0 = (Some err1, b1)" by blast
    have "offer_entries (reg s) ?b (pre @ (k, 0) # post) = (Some err1, b1)"
      by (simp add: offer_entries_append pre zero)
    with run have "b' = b1" by simp
    with offer_entries_pass[OF pre] show ?thesis by simp
  qed
  from outer q exact show ?thesis by simp
qed

theorem zero_amount_fails_witness:
  "entries_pass (reg (ex_state PENDING_ACCEPT)) (io (ex_state PENDING_ACCEPT))
     (case None of None \<Rightarrow> [] | Some x \<Rightarrow> x) 3 [(WalletId 1, - 10)]
   \<and> (\<exists>err s'. create_offer_for_ids (ex_env []) 0 (ex_state PENDING_ACCEPT)
                  ([(WalletId 1, - 10)] @ (WalletId 2, 0) # [(AssetId 5, - 1)]) None 3 False
                  = (Inl (ErrorCreatingOffer (Some err)), s')
          \<and> queried_keys (calls (io s')) = [WalletId 1])"
proof -
  have pass: "entries_pass (reg (ex_state PENDING_ACCEPT)) (io (ex_state PENDING_ACCEPT))
     (case None of None \<Rightarrow> [] | Some x \<Rightarrow> x) 3 [(WalletId 1, - 10)]"
    by code_simp
  have start: "queried_keys (calls (io (ex_state PENDING_ACCEPT))) = []"
    by code_simp
  have offered: "map fst (filter (\<lambda>p. snd p < 0) [(WalletId 1, - 10 :: int)]) = [WalletId 1]"
    by simp
  from zero_amount_fails[of "ex_env []" 0 "ex_state PENDING_ACCEPT" "[(WalletId 1, - 10)]"
                            "WalletId 2" "[(AssetId 5, - 1)]" None 3 False] pass
  show ?thesis
    unfolding start offered by auto
qed

text \<open>
  Claim C8 as stated fails: with an offered entry before the entry of amount 0, the coins
  of the first are selected before the construction fails.
\<close>

theorem zero_amount_counterexample:
  "fst (create_offer_for_ids (ex_env []) 0 (ex_state PENDING_ACCEPT)
          [(WalletId 1, - 10), (WalletId 2, 0)] None 3 False)
     = Inl (ErrorCreatingOffer (Some ZeroAmount))
   \<and> calls (io (snd (create_offer_for_ids (ex_env []) 0 (ex_state PENDING_ACCEPT)
                       [(WalletId 1, - 10), (WalletId 2, 0)] None 3 False)))
     = [GetCoinsToOffer (WalletId 1) None 10 3]"
  by code_simp

section \<open>A stale offer\<close>

lemma take_offer_entries_missing:
  "take_offer_entries r arb acc =
     (case missing_wallet r arb of
        Some a \<Rightarrow> Inl a
      | None \<Rightarrow> Inr (projr (take_offer_entries r arb acc)))"
  by (induction r arb arbitrary: acc rule: missing_wallet.induct) (auto split: option.splits)

text \<open>
  Claim C5, as amended. When \<open>check_offer_validity\<close> is false for the offer,
  \<open>respond_to_offer\<close> returns a failure and the state it was given, unchanged: no
  wallet call, no trade record, no transaction. The message is the one of the missing
  wallet, for the first asset this side has to supply and has no wallet for, because the
  loop over the arbitrage returns before the validity check; when there is no such asset
  the message is the one of the stale offer.
\<close>

theorem respond_stale:
  assumes stale: "\<not> check_offer_validity e offer"
  shows "respond_to_offer e now s offer fee
           = (Inr (False, None,
                   Some (case missing_wallet (reg s) (arbitrage e offer) of
                           Some a \<Rightarrow> NoWalletForAsset a
                         | None \<Rightarrow> OfferNoLongerValid)),
              s)"
proof (cases "missing_wallet (reg s) (arbitrage e offer)")
  case None
  then obtain d where "take_offer_entries (reg s) (arbitrage e offer) [] = Inr d"
    using take_offer_entries_missing[of "reg s" "arbitrage e offer" "[]"] by simp
  with stale None show ?thesis by (simp add: respond_to_offer_def)
next
  case (Some a)
  then have "take_offer_entries (reg s) (arbitrage e offer) [] = Inl a"
    using take_offer_entries_missing[of "reg s" "arbitrage e offer" "[]"] by simp
  with Some show ?thesis by (simp add: respond_to_offer_def)
qed

theorem respond_stale_witness:
  "\<not> check_offer_validity ((ex_env [])\<lparr>arbitrage := (\<lambda>offer. [(Some 5, - 5), (None, 3)])\<rparr>) ex_offer
   \<and> fst (respond_to_offer ((ex_env [])\<lparr>arbitrage := (\<lambda>offer. [(Some 5, - 5), (None, 3)])\<rparr>) 0
            (ex_state PENDING_ACCEPT) ex_offer 0)
       = Inr (False, None, Some OfferNoLongerValid)
   \<and> trades (snd (respond_to_offer ((ex_env [])\<lparr>arbitrage := (\<lambda>offer. [(Some 5, - 5), (None, 3)])\<rparr>) 0
            (ex_state PENDING_ACCEPT) ex_offer 0)) = trades (ex_state PENDING_ACCEPT)"
proof -
  let ?e = "(ex_env [])\<lparr>arbitrage := (\<lambda>offer. [(Some 5, - 5), (None, 3)])\<rparr>"
  have stale: "\<not> check_offer_validity ?e ex_offer"
    by code_simp
  have none: "missing_wallet (reg (ex_state PENDING_ACCEPT)) (arbitrage ?e ex_offer) = None"
    by code_simp
  from respond_stale[OF stale, of 0 "ex_state PENDING_ACCEPT" 0] stale
  show ?thesis unfolding none by simp
qed

text \<open>
  Claim C5 as stated fails in the message: the offer is stale and asks for an asset that
  has no wallet, and the message returned is the one of the missing wallet.
\<close>

theorem respond_stale_counterexample:
  "\<not> check_offer_validity (ex_env []) ex_offer
   \<and> fst (respond_to_offer (ex_env []) 0 (ex_state PENDING_ACCEPT) ex_offer 0)
       = Inr (False, None, Some (NoWalletForAsset 6))"
  by code_simp

section \<open>Safe cancellation\<close>

lemma coins_for_cancel_enough:
  "f \<le> amount c \<Longrightarrow> coins_for_cancel w f c i = (Inr [c], i)"
  by (simp add: coins_for_cancel_def)

lemma coins_for_cancel_short:
  "amount c < f \<Longrightarrow>
     coins_for_cancel w f c i =
       (case select_coins w (f - amount c) [c] of
          Inl err \<Rightarrow> (Inl err, log_call (SelectCoins (w_id w) (f - amount c) [c]) i)
        | Inr sel \<Rightarrow> (Inr (List.insert c (remdups sel)),
                      log_call (SelectCoins (w_id w) (f - amount c) [c]) i))"
  by (simp add: coins_for_cancel_def Let_def)

lemma standard_spend_run:
  assumes std: "w_type w = STANDARD_WALLET"
      and run: "cancel_spend w f ph c i = (Inr recs, i1)"
  shows "\<exists>seg. calls i1 = calls i @ seg \<and> ph_index i1 = ph_index i
           \<and> standard_spend w ph c f seg recs"
proof -
  obtain res i0 where sel: "coins_for_cancel w f c i = (res, i0)"
    by (cases "coins_for_cancel w f c i")
  from run std sel obtain coins where coins: "res = Inr coins"
    by (cases res) (auto simp: cancel_spend_def)
  let ?total = "sum_list (map amount coins)"
  from run std sel coins obtain amt tx where
    amt: "uint64 (int ?total - int f) = Inr amt"
    and i1: "i1 = log_call (GenerateSignedTransaction (w_id w) amt ph f coins) i0"
    and tx: "generate_signed_transaction w amt ph f coins = Inr tx" and recs: "recs = [tx]"
    by (auto simp: cancel_spend_def Let_def split: sum.splits)
  from amt have le: "f \<le> ?total" and amt_eq: "amt = ?total - f"
    by (auto simp: uint64_def split: if_splits)
  let ?cl = "GenerateSignedTransaction (w_id w) (?total - f) ph f coins"
  show ?thesis
  proof (cases "amount c < f")
    case True
    from sel coins coins_for_cancel_short[OF True, of w i] obtain chosen where
      chosen: "select_coins w (f - amount c) [c] = Inr chosen"
      and coins_eq: "coins = List.insert c (remdups chosen)"
      and i0: "i0 = log_call (SelectCoins (w_id w) (f - amount c) [c]) i"
      by (cases "select_coins w (f - amount c) [c]") auto
    let ?seg = "[SelectCoins (w_id w) (f - amount c) [c], ?cl]"
    have "calls i1 = calls i @ ?seg" "ph_index i1 = ph_index i"
      using i1 i0 amt_eq by (simp_all add: log_call_def)
    moreover have "distinct coins" "set coins = insert c (set chosen)"
      by (simp_all add: coins_eq)
    then have "standard_spend w ph c f ?seg recs"
      using True le tx recs amt_eq chosen by (simp add: standard_spend_def Let_def)
    ultimately show ?thesis by blast
  next
    case False
    then have "f \<le> amount c" by simp
    from sel coins coins_for_cancel_enough[OF this, of w i]
    have coins_eq: "coins = [c]" and i0: "i0 = i" by simp_all
    let ?seg = "[?cl]"
    have "calls i1 = calls i @ ?seg" "ph_index i1 = ph_index i"
      using i1 i0 amt_eq by (simp_all add: log_call_def)
    moreover have "standard_spend w ph c f ?seg recs"
      using False le tx recs amt_eq coins_eq by (simp add: standard_spend_def Let_def)
    ultimately show ?thesis by blast
  qed
qed

lemma other_spend_run:
  assumes other: "w_type w \<noteq> STANDARD_WALLET"
      and run: "cancel_spend w f ph c i = (Inr recs, i1)"
  shows "\<exists>seg. calls i1 = calls i @ seg \<and> ph_index i1 = ph_index i
           \<and> other_spend w ph c f seg recs"
  using assms
  by (auto simp: cancel_spend_def other_spend_def log_call_def Let_def)

lemma cancel_coins_log:
  assumes "cancel_coins e r now fee ftp i cs txs0 = (Inr txs, i')"
  shows "\<exists>parts. calls i' = calls i @ concat (map fst parts)
           \<and> txs = txs0 @ concat (map snd parts)
           \<and> list_all2 (respent e r now fee)
                (zip (List.enumerate (ph_index i) (filter (has_wallet e r) cs))
                     (ftp # replicate (length (filter (has_wallet e r) cs)) 0))
                parts"
  using assms
proof (induction cs arbitrary: ftp i txs0)
  case Nil
  then show ?case by simp
next
  case (Cons c cs)
  show ?case
  proof (cases "get_wallet_for_coin r (coin_name e c)")
    case None
    with Cons.prems have "cancel_coins e r now fee ftp i cs txs0 = (Inr txs, i')"
      by simp
    from Cons.IH[OF this] None show ?thesis
      by (simp add: has_wallet_def)
  next
    case (Some w)
    let ?ph = "get_new_puzzlehash w (ph_index i)"
    let ?i0 = "i\<lparr>ph_index := Suc (ph_index i)\<rparr>"
    let ?rec = "cancellation_tx e now fee w ?ph c"
    let ?owned = "filter (has_wallet e r) cs"
    from Cons.prems Some obtain recs i1 where
      step: "cancel_spend w ftp ?ph c ?i0 = (Inr recs, i1)"
      and rest: "cancel_coins e r now fee 0 i1 cs (txs0 @ recs @ [?rec]) = (Inr txs, i')"
      by (cases "cancel_spend w ftp ?ph c ?i0")
         (auto simp: derive_ph_def Let_def split: sum.splits)
    obtain seg where seg: "calls i1 = calls ?i0 @ seg" "ph_index i1 = ph_index ?i0"
      and kind: "if w_type w = STANDARD_WALLET then standard_spend w ?ph c ftp seg recs
                 else other_spend w ?ph c ftp seg recs"
      using standard_spend_run[OF _ step] other_spend_run[OF _ step]
      by (cases "w_type w = STANDARD_WALLET") auto
    have here: "respent e r now fee ((ph_index i, c), ftp) (seg, recs @ [?rec])"
      using Some kind by (simp add: respent_def Let_def)
    from Cons.IH[OF rest] obtain parts where
      parts: "calls i' = calls i1 @ concat (map fst parts)"
        "txs = (txs0 @ recs @ [?rec]) @ concat (map snd parts)"
        "list_all2 (respent e r now fee)
           (zip (List.enumerate (ph_index i1) ?owned) (0 # replicate (length ?owned) 0)) parts"
      by blast
    let ?parts = "(seg, recs @ [?rec]) # parts"
    have "calls i' = calls i @ concat (map fst ?parts)"
      using seg parts by simp
    moreover have "txs = txs0 @ concat (map snd ?parts)"
      using parts by simp
    moreover have "list_all2 (respent e r now fee)
                (zip (List.enumerate (ph_index i) (filter (has_wallet e r) (c # cs)))
                     (ftp # replicate (length (filter (has_wallet e r) (c # cs))) 0))
                ?parts"
      using here parts(3) seg(2) Some by (simp add: has_wallet_def)
    ultimately show ?thesis by blast
  qed
qed

lemma fold_add_pending:
  "fold (\<lambda>tx st. add_pending_transaction st (f tx)) txs s
     = s\<lparr>pending_transactions := pending_transactions s @ map f txs\<rparr>"
  by (induction txs arbitrary: s) (auto simp: add_pending_transaction_def)

lemma cancel_spend_selects:
  assumes "w_type w = STANDARD_WALLET" and "amount c < f"
      and "select_coins w (f - amount c) [c] = Inr sel"
      and "f \<le> sum_list (map amount (List.insert c (remdups sel)))"
      and "sum_list (map amount (List.insert c (remdups sel))) - f < 2 ^ 64"
      and "generate_signed_transaction w
             (sum_list (map amount (List.insert c (remdups sel))) - f) ph f
             (List.insert c (remdups sel)) = Inr tx"
  shows "cancel_spend w f ph c i =
           (Inr [tx],
            i\<lparr>calls := calls i @
                 [SelectCoins (w_id w) (f - amount c) [c],
                  GenerateSignedTransaction (w_id w)
                    (sum_list (map amount (List.insert c (remdups sel))) - f) ph f
                    (List.insert c (remdups sel))]\<rparr>)"
  using assms
  by (simp add: cancel_spend_def coins_for_cancel_short uint64_def log_call_def Let_def
           nat_diff_distrib' of_nat_diff)

text \<open>
  Claim C7, as amended. For an existing trade, when \<open>cancel_pending_offer_safely\<close>
  returns normally it has stored the status \<open>PENDING_CANCEL\<close> and has dealt, in order,
  with each primary coin of the offer that has a wallet, passing over the others: the
  \<open>j\<close>-th address derived is the new puzzle hash of the \<open>j\<close>-th of these coins (it
  is what \<^verbatim>\<open>get_new_puzzlehash\<close> returns, and is not compared with the puzzle hash
  of the coin), the fee goes with the first and 0 with the others, and the wallet calls
  and the records of each are those of \<open>respent\<close>. The records returned are queued as
  pending transactions, each with the fee as its fee amount. The last part is the
  selection itself: when the fee exceeds the amount of the coin of a standard wallet and
  the wallet's calls succeed, the wallet is asked to select coins for the difference and
  to spend the coin with the coins selected.
\<close>

theorem cancel_safely:
  assumes trade: "get_trade_record s tid = Some trade"
      and run: "cancel_pending_offer_safely e now s tid fee = (Inr (Some txs), s')"
  shows "(\<exists>r. get_trade_record s' tid = Some r \<and> status r = PENDING_CANCEL)
         \<and> (\<exists>parts. calls (io s') = calls (io s) @ concat (map fst parts)
               \<and> txs = concat (map snd parts)
               \<and> list_all2 (respent e (reg s) now fee)
                    (zip (List.enumerate (ph_index (io s))
                            (filter (has_wallet e (reg s)) (get_primary_coins e (tr_offer trade))))
                         (fee # replicate
                                  (length (filter (has_wallet e (reg s))
                                             (get_primary_coins e (tr_offer trade)))) 0))
                    parts)
         \<and> pending_transactions s'
             = pending_transactions s @ map (\<lambda>tx. tx\<lparr>fee_amount := fee\<rparr>) txs
         \<and> transactions s' = transactions s
         \<and> (\<forall>w c f ph i sel tx.
               w_type w = STANDARD_WALLET \<and> amount c < f
               \<and> select_coins w (f - amount c) [c] = Inr sel
               \<and> f \<le> sum_list (map amount (List.insert c (remdups sel)))
               \<and> sum_list (map amount (List.insert c (remdups sel))) - f < 2 ^ 64
               \<and> generate_signed_transaction w
                    (sum_list (map amount (List.insert c (remdups sel))) - f) ph f
                    (List.insert c (remdups sel)) = Inr tx
               \<longrightarrow> cancel_spend w f ph c i =
                     (Inr [tx],
                      i\<lparr>calls := calls i @
                           [SelectCoins (w_id w) (f - amount c) [c],
                            GenerateSignedTransaction (w_id w)
                              (sum_list (map amount (List.insert c (remdups sel))) - f) ph f
                              (List.insert c (remdups sel))]\<rparr>))"
proof -
  let ?coins = "get_primary_coins e (tr_offer trade)"
  from run trade obtain i' where
    loop: "cancel_coins e (reg s) now fee fee (io s) ?coins [] = (Inr txs, i')"
    and s': "s' = set_status e
                    (fold (\<lambda>tx st. add_pending_transaction st (tx\<lparr>fee_amount := fee\<rparr>))
                        txs (s\<lparr>io := i'\<rparr>)) tid PENDING_CANCEL"
    by (cases "cancel_coins e (reg s) now fee fee (io s) ?coins []")
       (auto simp: cancel_pending_offer_safely_def Let_def split: sum.splits)
  have queued: "fold (\<lambda>tx st. add_pending_transaction st (tx\<lparr>fee_amount := fee\<rparr>)) txs
                  (s\<lparr>io := i'\<rparr>)
                = s\<lparr>io := i',
                    pending_transactions := pending_transactions s
                       @ map (\<lambda>tx. tx\<lparr>fee_amount := fee\<rparr>) txs\<rparr>"
    by (simp add: fold_add_pending)
  have io': "io s' = i'"
    and pend: "pending_transactions s'
                 = pending_transactions s @ map (\<lambda>tx. tx\<lparr>fee_amount := fee\<rparr>) txs"
    and same: "transactions s' = transactions s"
    and trades': "trades s' = listing e tid
                     (map (\<lambda>t. if trade_id t = tid then t\<lparr>status := PENDING_CANCEL\<rparr> else t)
                          (trades s))"
    by (simp_all add: s' queued set_status_def)
  have mem: "\<exists>x\<in>set (trades s). trade_id x = tid"
    using find_SomeD[of "\<lambda>t. trade_id t = tid" "trades s" trade] trade
    by (auto simp: get_trade_record_def)
  have stored: "\<exists>r. get_trade_record s' tid = Some r \<and> status r = PENDING_CANCEL"
    using stored_after_write[of "\<lambda>x. x\<lparr>status := PENDING_CANCEL\<rparr>" "trades s" tid e, OF _ mem]
    by (auto simp: get_trade_record_def trades')
  from cancel_coins_log[OF loop] obtain parts where
    parts: "calls i' = calls (io s) @ concat (map fst parts)" "txs = concat (map snd parts)"
      "list_all2 (respent e (reg s) now fee)
          (zip (List.enumerate (ph_index (io s)) (filter (has_wallet e (reg s)) ?coins))
               (fee # replicate (length (filter (has_wallet e (reg s)) ?coins)) 0))
          parts"
    by auto
  have logged: "\<exists>parts. calls (io s') = calls (io s) @ concat (map fst parts)
               \<and> txs = concat (map snd parts)
               \<and> list_all2 (respent e (reg s) now fee)
                    (zip (List.enumerate (ph_index (io s)) (filter (has_wallet e (reg s)) ?coins))
                         (fee # replicate (length (filter (has_wallet e (reg s)) ?coins)) 0))
                    parts"
    using parts unfolding io' by blast
  have selects: "\<forall>w c f ph i sel tx.
               w_type w = STANDARD_WALLET \<and> amount c < f
               \<and> select_coins w (f - amount c) [c] = Inr sel
               \<and> f \<le> sum_list (map amount (List.insert c (remdups sel)))
               \<and> sum_list (map amount (List.insert c (remdups sel))) - f < 2 ^ 64
               \<and> generate_signed_transaction w
                    (sum_list (map amount (List.insert c (remdups sel))) - f) ph f
                    (List.insert c (remdups sel)) = Inr tx
               \<longrightarrow> cancel_spend w f ph c i =
                     (Inr [tx],
                      i\<lparr>calls := calls i @
                           [SelectCoins (w_id w) (f - amount c) [c],
                            GenerateSignedTransaction (w_id w)
                              (sum_list (map amount (List.insert c (remdups sel))) - f) ph f
                              (List.insert c (remdups sel))]\<rparr>)"
    using cancel_spend_selects by blast
  from stored logged pend same selects show ?thesis
    by (intro conjI)
qed

theorem cancel_safely_witness:
  "get_trade_record (ex_state PENDING_ACCEPT) 9 = Some (ex_trade PENDING_ACCEPT)
   \<and> (\<exists>txs s'. cancel_pending_offer_safely (ex_env []) 0 (ex_state PENDING_ACCEPT) 9 130
                  = (Inr (Some txs), s')
          \<and> (\<exists>r. get_trade_record s' 9 = Some r \<and> status r = PENDING_CANCEL)
          \<and> pending_transactions s'
              = pending_transactions (ex_state PENDING_ACCEPT)
                  @ map (\<lambda>tx. tx\<lparr>fee_amount := 130\<rparr>) txs)
   \<and> calls (io (snd (cancel_pending_offer_safely (ex_env []) 0 (ex_state PENDING_ACCEPT) 9 130)))
       = [SelectCoins 1 30 [c_ours], GenerateSignedTransaction 1 10 1000 130 [c_ours, c_extra]]
   \<and> length (pending_transactions
               (snd (cancel_pending_offer_safely (ex_env []) 0 (ex_state PENDING_ACCEPT) 9 130)))
       = 2"
proof -
  let ?run = "cancel_pending_offer_safely (ex_env []) 0 (ex_state PENDING_ACCEPT) 9 130"
  have trade: "get_trade_record (ex_state PENDING_ACCEPT) 9 = Some (ex_trade PENDING_ACCEPT)"
    by code_simp
  have "case fst ?run of Inr (Some txs) \<Rightarrow> True | _ \<Rightarrow> False"
    by code_simp
  then obtain txs s' where run: "?run = (Inr (Some txs), s')"
    by (cases ?run) (auto split: sum.splits option.splits)
  have log: "calls (io (snd ?run))
       = [SelectCoins 1 30 [c_ours], GenerateSignedTransaction 1 10 1000 130 [c_ours, c_extra]]"
    by code_simp
  have two: "length (pending_transactions (snd ?run)) = 2"
    by code_simp
  from cancel_safely[OF trade run]
  have "\<exists>r. get_trade_record s' 9 = Some r \<and> status r = PENDING_CANCEL"
    and "pending_transactions s'
              = pending_transactions (ex_state PENDING_ACCEPT)
                  @ map (\<lambda>tx. tx\<lparr>fee_amount := 130\<rparr>) txs"
    by blast+
  with trade run log two show ?thesis by blast
qed

text \<open>
  Claim C7 as stated fails: of the primary coins \<open>c_theirs\<close> and \<open>c_extra\<close> the first
  has no wallet and is not spent; the second, of amount 40 and in a wallet that is not the
  standard one, is spent alone with a fee of 50, to the puzzle hash 13 it already has.
\<close>

theorem cancel_safely_counterexample:
  "get_trade_record ex_reusing_state 9 = Some (ex_trade PENDING_ACCEPT)
   \<and> get_primary_coins ((ex_env [])\<lparr>get_primary_coins := (\<lambda>offer. [c_theirs, c_extra])\<rparr>)
        (tr_offer (ex_trade PENDING_ACCEPT)) = [c_theirs, c_extra]
   \<and> amount c_extra = 40 \<and> puzzle_hash c_extra = 13
   \<and> calls (io (snd (cancel_pending_offer_safely
                       ((ex_env [])\<lparr>get_primary_coins := (\<lambda>offer. [c_theirs, c_extra])\<rparr>) 0
                       ex_reusing_state 9 50)))
       = [GenerateSignedTransactions 2 [40] [13] 50 [c_extra]]
   \<and> map status (trades (snd (cancel_pending_offer_safely
                       ((ex_env [])\<lparr>get_primary_coins := (\<lambda>offer. [c_theirs, c_extra])\<rparr>) 0
                       ex_reusing_state 9 50))) = [PENDING_CANCEL]"
  by code_simp

end
